theory Spec2Isabelle
  imports Main
begin

section \<open>The power transition controller of mate-power-manager\<close>

text \<open>
  A shallow embedding of \<^verbatim>\<open>src/gpm-control.c\<close>. The controller is a sequence of calls into
  services outside the program (logind over D-Bus, the secret service, gnome-keyring,
  GSettings, NetworkManager, the GObject signal machinery). Every such call is recorded, with
  the answer it got, in a trace; the answers themselves come from an environment that may
  depend on everything that happened before the call, so that a service or a setting may
  change at any moment of a transition.

  Releasing memory (\<^verbatim>\<open>g_object_unref\<close> of proxies, \<^verbatim>\<open>g_error_free\<close>,
  \<^verbatim>\<open>g_variant_unref\<close>, \<^verbatim>\<open>g_list_free\<close>) is not part of the trace; the reference count of
  the controller itself is modelled in a section of its own.
\<close>

subsection \<open>Data\<close>

text \<open>\<^verbatim>\<open>GpmControlAction\<close> (gpm-control.h), the argument of both signals.\<close>

datatype GpmControlAction = GPM_CONTROL_ACTION_SUSPEND | GPM_CONTROL_ACTION_HIBERNATE

text \<open>\<^verbatim>\<open>enum { RESUME, SLEEP, LAST_SIGNAL }\<close>\<close>

datatype signal_id = RESUME | SLEEP

text \<open>
  The three boolean keys the controller reads. The macros are defined in gpm-common.h,
  which is not among the sources; they are taken as three distinct opaque keys.
\<close>

datatype settings_key =
    GPM_SETTINGS_LOCK_KEYRING_SUSPEND
  | GPM_SETTINGS_LOCK_KEYRING_HIBERNATE
  | GPM_SETTINGS_NETWORKMANAGER_SLEEP

datatype GnomeKeyringResult = GNOME_KEYRING_RESULT_OK | GNOME_KEYRING_RESULT_FAILED

text \<open>A \<^verbatim>\<open>GError\<close> is represented by its message.\<close>

type_synonym gerror = string

text \<open>
  One entry per call that leaves the program, oldest first in a trace. An answer of type
  \<open>gerror + 'a\<close> is \<open>Inl e\<close> when the callee returned its failure value and set the
  \<^verbatim>\<open>GError\<close>, and \<open>Inr v\<close> when it returned \<open>v\<close>.
\<close>

datatype event =
    Logind_running bool
  | Settings_get_boolean settings_key bool
  | Secret_service_get "gerror + unit"
  | Secret_service_get_collections nat
  | Secret_service_lock "gerror + nat"
  | Gnome_keyring_lock_all GnomeKeyringResult
  | Networkmanager_sleep
  | Networkmanager_wake
  | Signal_emit signal_id GpmControlAction
  | Dbus_proxy_new "gerror + unit"
  | Dbus_proxy_call string bool "gerror + unit"
  | Warning string
  | Debug string

text \<open>
  The world outside the controller: what each call answers, given the trace so far.
  \<open>logind_running\<close> stands for the macro \<^verbatim>\<open>LOGIND_RUNNING()\<close> of gpm-common.h (not among
  the sources), \<open>collections_reply\<close> is the length of the list that
  \<^verbatim>\<open>secret_service_get_collections\<close> returns (\<open>0\<close> for \<^verbatim>\<open>NULL\<close>), and
  \<open>lock_reply\<close> is either the error of \<^verbatim>\<open>secret_service_lock_sync\<close> (which then returns
  \<open>-1\<close>) or the number of collections it locked.
\<close>

record env =
  logind_running :: "event list \<Rightarrow> bool"
  settings_value :: "event list \<Rightarrow> settings_key \<Rightarrow> bool"
  secret_service_reply :: "event list \<Rightarrow> gerror + unit"
  collections_reply :: "event list \<Rightarrow> nat"
  lock_reply :: "event list \<Rightarrow> gerror + nat"
  keyring_reply :: "event list \<Rightarrow> GnomeKeyringResult"
  proxy_new_reply :: "event list \<Rightarrow> gerror + unit"
  proxy_call_reply :: "event list \<Rightarrow> string \<Rightarrow> gerror + unit"

text \<open>
  The state of one invocation: the trace, and the caller's \<^verbatim>\<open>GError **error\<close>, which is
  \<open>None\<close> when the caller passed \<^verbatim>\<open>NULL\<close>, \<open>Some None\<close> when it points to an empty
  slot and \<open>Some (Some e)\<close> once an error has been stored there.
\<close>

record state =
  trace :: "event list"
  error_out :: "gerror option option"

text \<open>The two compile-time switches \<^verbatim>\<open>WITH_LIBSECRET\<close> and \<^verbatim>\<open>WITH_KEYRING\<close>.\<close>

record build =
  with_libsecret :: bool
  with_keyring :: bool

subsection \<open>The calls that leave the program\<close>

definition record_event :: "event \<Rightarrow> state \<Rightarrow> state" where
  "record_event e s = s\<lparr>trace := trace s @ [e]\<rparr>"

text \<open>
  GLib stores an error through a \<^verbatim>\<open>GError **\<close> only when the pointer is not \<^verbatim>\<open>NULL\<close>, and
  never overwrites an error that is already there.
\<close>

definition g_propagate_error :: "gerror option option \<Rightarrow> gerror \<Rightarrow> gerror option option" where
  "g_propagate_error dest e =
     (case dest of
        None \<Rightarrow> None
      | Some None \<Rightarrow> Some (Some e)
      | Some (Some old) \<Rightarrow> Some (Some old))"

definition LOGIND_RUNNING :: "env \<Rightarrow> state \<Rightarrow> bool \<times> state" where
  "LOGIND_RUNNING E s =
     (let r = logind_running E (trace s) in (r, record_event (Logind_running r) s))"

definition g_settings_get_boolean :: "env \<Rightarrow> settings_key \<Rightarrow> state \<Rightarrow> bool \<times> state" where
  "g_settings_get_boolean E k s =
     (let r = settings_value E (trace s) k in (r, record_event (Settings_get_boolean k r) s))"

text \<open>
  \<^verbatim>\<open>secret_service_get_sync (..., error)\<close>: the result says whether a proxy came back; on
  failure the error goes to the caller's \<^verbatim>\<open>error\<close>.
\<close>

definition secret_service_get_sync :: "env \<Rightarrow> state \<Rightarrow> bool \<times> state" where
  "secret_service_get_sync E s =
     (let r = secret_service_reply E (trace s);
          s' = record_event (Secret_service_get r) s
      in case r of
           Inl e \<Rightarrow> (False, s'\<lparr>error_out := g_propagate_error (error_out s') e\<rparr>)
         | Inr u \<Rightarrow> (True, s'))"

definition secret_service_get_collections :: "env \<Rightarrow> state \<Rightarrow> nat \<times> state" where
  "secret_service_get_collections E s =
     (let r = collections_reply E (trace s)
      in (r, record_event (Secret_service_get_collections r) s))"

text \<open>\<^verbatim>\<open>secret_service_lock_sync (..., NULL, error)\<close>: the number locked, \<open>-1\<close> on error.\<close>

definition secret_service_lock_sync :: "env \<Rightarrow> state \<Rightarrow> int \<times> state" where
  "secret_service_lock_sync E s =
     (let r = lock_reply E (trace s);
          s' = record_event (Secret_service_lock r) s
      in case r of
           Inl e \<Rightarrow> (- 1, s'\<lparr>error_out := g_propagate_error (error_out s') e\<rparr>)
         | Inr n \<Rightarrow> (int n, s'))"

definition gnome_keyring_lock_all_sync :: "env \<Rightarrow> state \<Rightarrow> GnomeKeyringResult \<times> state" where
  "gnome_keyring_lock_all_sync E s =
     (let r = keyring_reply E (trace s) in (r, record_event (Gnome_keyring_lock_all r) s))"

definition gpm_networkmanager_sleep :: "state \<Rightarrow> state" where
  "gpm_networkmanager_sleep s = record_event Networkmanager_sleep s"

definition gpm_networkmanager_wake :: "state \<Rightarrow> state" where
  "gpm_networkmanager_wake s = record_event Networkmanager_wake s"

definition g_signal_emit :: "signal_id \<Rightarrow> GpmControlAction \<Rightarrow> state \<Rightarrow> state" where
  "g_signal_emit sig a s = record_event (Signal_emit sig a) s"

definition g_warning :: "string \<Rightarrow> state \<Rightarrow> state" where
  "g_warning msg s = record_event (Warning msg) s"

definition g_debug :: "string \<Rightarrow> state \<Rightarrow> state" where
  "g_debug msg s = record_event (Debug msg) s"

text \<open>
  \<^verbatim>\<open>g_dbus_proxy_new_for_bus_sync\<close> for \<^verbatim>\<open>org.freedesktop.login1.Manager\<close> on the system
  bus, and \<^verbatim>\<open>g_dbus_proxy_call_sync (proxy, method, g_variant_new ("(b)", flag), ...)\<close>. Both
  report into a local \<^verbatim>\<open>GError\<close>, never into the caller's.
\<close>

definition g_dbus_proxy_new_for_bus_sync :: "env \<Rightarrow> state \<Rightarrow> (gerror + unit) \<times> state" where
  "g_dbus_proxy_new_for_bus_sync E s =
     (let r = proxy_new_reply E (trace s) in (r, record_event (Dbus_proxy_new r) s))"

definition g_dbus_proxy_call_sync ::
  "env \<Rightarrow> string \<Rightarrow> bool \<Rightarrow> state \<Rightarrow> (gerror + unit) \<times> state" where
  "g_dbus_proxy_call_sync E method flag s =
     (let r = proxy_call_reply E (trace s) method
      in (r, record_event (Dbus_proxy_call method flag r) s))"

subsection \<open>Shutdown\<close>

definition gpm_control_systemd_shutdown :: "env \<Rightarrow> state \<Rightarrow> bool \<times> state" where
  "gpm_control_systemd_shutdown E s0 =
     (let s = g_debug ''Requesting systemd to shutdown'' s0;
          (proxy, s) = g_dbus_proxy_new_for_bus_sync E s
      in case proxy of
           Inl msg \<Rightarrow> (False, g_warning (''Error connecting to dbus - '' @ msg) s)
         | Inr p \<Rightarrow>
             (let (res, s) = g_dbus_proxy_call_sync E ''PowerOff'' False s
              in case res of
                   Inl msg \<Rightarrow> (False, g_warning (''Error in dbus - '' @ msg) s)
                 | Inr v \<Rightarrow> (True, s)))"

definition gpm_control_shutdown :: "env \<Rightarrow> gerror option option \<Rightarrow> bool \<times> state" where
  "gpm_control_shutdown E error =
     (let ret = False;
          (running, s) = LOGIND_RUNNING E \<lparr>trace = [], error_out = error\<rparr>
      in if running then gpm_control_systemd_shutdown E s else (ret, s))"

subsection \<open>Suspend and hibernate\<close>

text \<open>
  Both functions are transcribed in full. \<open>goto_out\<close> is the \<^verbatim>\<open>goto out\<close> taken when the
  proxy cannot be created: it skips the resume signal and the wake-up of the network.
\<close>

definition gpm_control_suspend :: "build \<Rightarrow> env \<Rightarrow> gerror option option \<Rightarrow> bool \<times> state" where
  "gpm_control_suspend B E error =
     (let ret = False;
          (running, s) = LOGIND_RUNNING E \<lparr>trace = [], error_out = error\<rparr>
      in if \<not> running then (ret, s)
         else
          (let s =
                 (if with_libsecret B then
                    (let (lock_libsecret, s) =
                           g_settings_get_boolean E GPM_SETTINGS_LOCK_KEYRING_SUSPEND s
                     in if lock_libsecret then
                          (let (secretservice_proxy, s) = secret_service_get_sync E s
                           in if \<not> secretservice_proxy then
                                g_warning ''failed to connect to secret service'' s
                              else
                               (let (libsecret_collections, s) =
                                      secret_service_get_collections E s
                                in if libsecret_collections = 0 then
                                     g_warning ''failed to get secret collections'' s
                                   else
                                    (let (num_secrets_locked, s) = secret_service_lock_sync E s
                                     in if num_secrets_locked \<le> 0 then
                                          g_warning ''could not lock keyring'' s
                                        else s)))
                        else s)
                  else s);
               s =
                 (if with_keyring B then
                    (let (lock_gnome_keyring, s) =
                           g_settings_get_boolean E GPM_SETTINGS_LOCK_KEYRING_SUSPEND s
                     in if lock_gnome_keyring then
                          (let (keyres, s) = gnome_keyring_lock_all_sync E s
                           in if keyres \<noteq> GNOME_KEYRING_RESULT_OK then
                                g_warning ''could not lock keyring'' s
                              else s)
                        else s)
                  else s);
               (nm_sleep, s) = g_settings_get_boolean E GPM_SETTINGS_NETWORKMANAGER_SLEEP s;
               s = (if nm_sleep then gpm_networkmanager_sleep s else s);
               s = g_debug ''emitting sleep'' s;
               s = g_signal_emit SLEEP GPM_CONTROL_ACTION_SUSPEND s;
               (running, s) = LOGIND_RUNNING E s;
               (ret, goto_out, s) =
                 (if running then
                    (let (proxy, s) = g_dbus_proxy_new_for_bus_sync E s
                     in case proxy of
                          Inl msg \<Rightarrow>
                            (False, True, g_warning (''Error connecting to dbus - '' @ msg) s)
                        | Inr p \<Rightarrow>
                            (let (res, s) = g_dbus_proxy_call_sync E ''Suspend'' False s
                             in case res of
                                  Inl msg \<Rightarrow>
                                    (True, False, g_warning (''Error in dbus - '' @ msg) s)
                                | Inr v \<Rightarrow> (True, False, s)))
                  else (ret, False, s))
           in if goto_out then (ret, s)
              else
               (let s = g_debug ''emitting resume'' s;
                    s = g_signal_emit RESUME GPM_CONTROL_ACTION_SUSPEND s;
                    (nm_sleep, s) =
                      g_settings_get_boolean E GPM_SETTINGS_NETWORKMANAGER_SLEEP s;
                    s = (if nm_sleep then gpm_networkmanager_wake s else s)
                in (ret, s))))"

definition gpm_control_hibernate :: "build \<Rightarrow> env \<Rightarrow> gerror option option \<Rightarrow> bool \<times> state" where
  "gpm_control_hibernate B E error =
     (let ret = False;
          (running, s) = LOGIND_RUNNING E \<lparr>trace = [], error_out = error\<rparr>
      in if \<not> running then (ret, s)
         else
          (let s =
                 (if with_libsecret B then
                    (let (lock_libsecret, s) =
                           g_settings_get_boolean E GPM_SETTINGS_LOCK_KEYRING_SUSPEND s
                     in if lock_libsecret then
                          (let (secretservice_proxy, s) = secret_service_get_sync E s
                           in if \<not> secretservice_proxy then
                                g_warning ''failed to connect to secret service'' s
                              else
                               (let (libsecret_collections, s) =
                                      secret_service_get_collections E s
                                in if libsecret_collections = 0 then
                                     g_warning ''failed to get secret collections'' s
                                   else
                                    (let (num_secrets_locked, s) = secret_service_lock_sync E s
                                     in if num_secrets_locked \<le> 0 then
                                          g_warning ''could not lock keyring'' s
                                        else s)))
                        else s)
                  else s);
               s =
                 (if with_keyring B then
                    (let (lock_gnome_keyring, s) =
                           g_settings_get_boolean E GPM_SETTINGS_LOCK_KEYRING_HIBERNATE s
                     in if lock_gnome_keyring then
                          (let (keyres, s) = gnome_keyring_lock_all_sync E s
                           in if keyres \<noteq> GNOME_KEYRING_RESULT_OK then
                                g_warning ''could not lock keyring'' s
                              else s)
                        else s)
                  else s);
               (nm_sleep, s) = g_settings_get_boolean E GPM_SETTINGS_NETWORKMANAGER_SLEEP s;
               s = (if nm_sleep then gpm_networkmanager_sleep s else s);
               s = g_debug ''emitting sleep'' s;
               s = g_signal_emit SLEEP GPM_CONTROL_ACTION_HIBERNATE s;
               (running, s) = LOGIND_RUNNING E s;
               (ret, goto_out, s) =
                 (if running then
                    (let (proxy, s) = g_dbus_proxy_new_for_bus_sync E s
                     in case proxy of
                          Inl msg \<Rightarrow>
                            (False, True, g_warning (''Error connecting to dbus - '' @ msg) s)
                        | Inr p \<Rightarrow>
                            (let (res, s) = g_dbus_proxy_call_sync E ''Hibernate'' False s
                             in case res of
                                  Inl msg \<Rightarrow>
                                    (True, False, g_warning (''Error in dbus - '' @ msg) s)
                                | Inr v \<Rightarrow> (True, False, s)))
                  else (ret, False, s))
           in if goto_out then (ret, s)
              else
               (let s = g_debug ''emitting resume'' s;
                    s = g_signal_emit RESUME GPM_CONTROL_ACTION_HIBERNATE s;
                    (nm_sleep, s) =
                      g_settings_get_boolean E GPM_SETTINGS_NETWORKMANAGER_SLEEP s;
                    s = (if nm_sleep then gpm_networkmanager_wake s else s)
                in (ret, s))))"

subsection \<open>Both transitions at once\<close>

text \<open>
  The public operation for a transition kind, the logind method it calls, and the key the
  \<^verbatim>\<open>WITH_KEYRING\<close> block reads for it.
\<close>

definition method_of :: "GpmControlAction \<Rightarrow> string" where
  "method_of a = (case a of GPM_CONTROL_ACTION_SUSPEND \<Rightarrow> ''Suspend'' | GPM_CONTROL_ACTION_HIBERNATE \<Rightarrow> ''Hibernate'')"

definition keyring_key :: "GpmControlAction \<Rightarrow> settings_key" where
  "keyring_key a = (case a of GPM_CONTROL_ACTION_SUSPEND \<Rightarrow> GPM_SETTINGS_LOCK_KEYRING_SUSPEND | GPM_CONTROL_ACTION_HIBERNATE \<Rightarrow> GPM_SETTINGS_LOCK_KEYRING_HIBERNATE)"

definition transition :: "GpmControlAction \<Rightarrow> build \<Rightarrow> env \<Rightarrow> gerror option option \<Rightarrow> bool \<times> state" where
  "transition a = (case a of GPM_CONTROL_ACTION_SUSPEND \<Rightarrow> gpm_control_suspend | GPM_CONTROL_ACTION_HIBERNATE \<Rightarrow> gpm_control_hibernate)"

subsection \<open>The phases of a transition\<close>

text \<open>
  The body of both functions, cut at the places where it is analysed: the two keyring blocks
  (with the keys they read as parameters), the steps up to the sleep signal, the block under
  the second \<^verbatim>\<open>LOGIND_RUNNING()\<close>, and the steps from the resume signal on. Lemmas
  \<open>suspend_phases\<close> and \<open>hibernate_phases\<close> below show that the functions above are
  exactly these phases in sequence.
\<close>

definition lock_keyrings :: "build \<Rightarrow> env \<Rightarrow> settings_key \<Rightarrow> settings_key \<Rightarrow> state \<Rightarrow> state" where
  "lock_keyrings B E k1 k2 s0 =
     (let s =
            (if with_libsecret B then
               (let (lock_libsecret, s) = g_settings_get_boolean E k1 s0
                in if lock_libsecret then
                     (let (secretservice_proxy, s) = secret_service_get_sync E s
                      in if \<not> secretservice_proxy then
                           g_warning ''failed to connect to secret service'' s
                         else
                          (let (libsecret_collections, s) = secret_service_get_collections E s
                           in if libsecret_collections = 0 then
                                g_warning ''failed to get secret collections'' s
                              else
                               (let (num_secrets_locked, s) = secret_service_lock_sync E s
                                in if num_secrets_locked \<le> 0 then
                                     g_warning ''could not lock keyring'' s
                                   else s)))
                   else s)
             else s0)
      in if with_keyring B then
           (let (lock_gnome_keyring, s) = g_settings_get_boolean E k2 s
            in if lock_gnome_keyring then
                 (let (keyres, s) = gnome_keyring_lock_all_sync E s
                  in if keyres \<noteq> GNOME_KEYRING_RESULT_OK then
                       g_warning ''could not lock keyring'' s
                     else s)
               else s)
         else s)"

definition pre_sleep :: "env \<Rightarrow> GpmControlAction \<Rightarrow> state \<Rightarrow> state" where
  "pre_sleep E a s0 =
     (let (nm_sleep, s) = g_settings_get_boolean E GPM_SETTINGS_NETWORKMANAGER_SLEEP s0;
          s = (if nm_sleep then gpm_networkmanager_sleep s else s);
          s = g_debug ''emitting sleep'' s
      in g_signal_emit SLEEP a s)"

definition privileged_call :: "env \<Rightarrow> string \<Rightarrow> state \<Rightarrow> bool \<times> bool \<times> state" where
  "privileged_call E method s0 =
     (let (running, s) = LOGIND_RUNNING E s0
      in if running then
           (let (proxy, s) = g_dbus_proxy_new_for_bus_sync E s
            in case proxy of
                 Inl msg \<Rightarrow> (False, True, g_warning (''Error connecting to dbus - '' @ msg) s)
               | Inr p \<Rightarrow>
                   (let (res, s) = g_dbus_proxy_call_sync E method False s
                    in case res of
                         Inl msg \<Rightarrow> (True, False, g_warning (''Error in dbus - '' @ msg) s)
                       | Inr v \<Rightarrow> (True, False, s)))
         else (False, False, s))"

definition post_resume :: "env \<Rightarrow> GpmControlAction \<Rightarrow> state \<Rightarrow> state" where
  "post_resume E a s0 =
     (let s = g_debug ''emitting resume'' s0;
          s = g_signal_emit RESUME a s;
          (nm_sleep, s) = g_settings_get_boolean E GPM_SETTINGS_NETWORKMANAGER_SLEEP s
      in if nm_sleep then gpm_networkmanager_wake s else s)"

definition do_sleep :: "env \<Rightarrow> GpmControlAction \<Rightarrow> string \<Rightarrow> state \<Rightarrow> bool \<times> state" where
  "do_sleep E a method s0 =
     (let (ret, goto_out, s) = privileged_call E method (pre_sleep E a s0)
      in if goto_out then (ret, s) else (ret, post_resume E a s))"

subsection \<open>Traces by shape\<close>

text \<open>
  The events of the two keyring blocks: reads of a key other than the quiesce key, calls to
  the secret service and to gnome-keyring, and warnings.
\<close>

fun credential_event :: "event \<Rightarrow> bool" where
  "credential_event (Settings_get_boolean k v) = (k \<noteq> GPM_SETTINGS_NETWORKMANAGER_SLEEP)"
| "credential_event (Secret_service_get r) = True"
| "credential_event (Secret_service_get_collections n) = True"
| "credential_event (Secret_service_lock r) = True"
| "credential_event (Gnome_keyring_lock_all r) = True"
| "credential_event (Warning msg) = True"
| "credential_event e = False"

text \<open>
  What the block under the second \<^verbatim>\<open>LOGIND_RUNNING()\<close> can do: find logind gone, fail
  to create the proxy, or make the call and get an answer; and the events each phase adds to
  the trace, given the answers it got.
\<close>

datatype privileged_outcome =
  Recheck_failed | Connect_failed gerror | Call_replied "gerror + unit"

fun privileged_trace :: "string \<Rightarrow> privileged_outcome \<Rightarrow> event list" where
  "privileged_trace m Recheck_failed = [Logind_running False]"
| "privileged_trace m (Connect_failed msg) =
     [Logind_running True, Dbus_proxy_new (Inl msg), Warning (''Error connecting to dbus - '' @ msg)]"
| "privileged_trace m (Call_replied r) =
     [Logind_running True, Dbus_proxy_new (Inr ()), Dbus_proxy_call m False r]
     @ (case r of Inl msg \<Rightarrow> [Warning (''Error in dbus - '' @ msg)] | Inr v \<Rightarrow> [])"

fun privileged_ret :: "privileged_outcome \<Rightarrow> bool" where
  "privileged_ret Recheck_failed = False"
| "privileged_ret (Connect_failed msg) = False"
| "privileged_ret (Call_replied r) = True"

fun aborted :: "privileged_outcome \<Rightarrow> bool" where
  "aborted (Connect_failed msg) = True"
| "aborted oc = False"

definition pre_trace :: "GpmControlAction \<Rightarrow> bool \<Rightarrow> event list" where
  "pre_trace a v1 =
     Settings_get_boolean GPM_SETTINGS_NETWORKMANAGER_SLEEP v1
     # (if v1 then [Networkmanager_sleep] else [])
     @ [Debug ''emitting sleep'', Signal_emit SLEEP a]"

definition resume_trace :: "GpmControlAction \<Rightarrow> bool \<Rightarrow> event list" where
  "resume_trace a v2 =
     [Debug ''emitting resume'', Signal_emit RESUME a,
      Settings_get_boolean GPM_SETTINGS_NETWORKMANAGER_SLEEP v2]
     @ (if v2 then [Networkmanager_wake] else [])"

definition sleep_trace ::
  "GpmControlAction \<Rightarrow> string \<Rightarrow> bool \<Rightarrow> privileged_outcome \<Rightarrow> bool \<Rightarrow> event list" where
  "sleep_trace a m v1 oc v2 =
     pre_trace a v1 @ privileged_trace m oc @ (if aborted oc then [] else resume_trace a v2)"

text \<open>
  The events the claims speak about: a signal or a call to logind (\<open>transition_event\<close>),
  and an answer that means a keyring was not locked (\<open>credential_failure\<close>).
\<close>

fun transition_event :: "event \<Rightarrow> bool" where
  "transition_event (Signal_emit sig a) = True"
| "transition_event (Dbus_proxy_call m b r) = True"
| "transition_event e = False"

fun credential_failure :: "event \<Rightarrow> bool" where
  "credential_failure (Secret_service_get r) = (case r of Inl e \<Rightarrow> True | Inr u \<Rightarrow> False)"
| "credential_failure (Secret_service_get_collections n) = (n = 0)"
| "credential_failure (Secret_service_lock r) = (case r of Inl e \<Rightarrow> True | Inr n \<Rightarrow> n = 0)"
| "credential_failure (Gnome_keyring_lock_all r) = (r \<noteq> GNOME_KEYRING_RESULT_OK)"
| "credential_failure e = False"

fun signal_event :: "event \<Rightarrow> bool" where
  "signal_event (Signal_emit sig a) = True"
| "signal_event e = False"

fun proxy_call_event :: "event \<Rightarrow> bool" where
  "proxy_call_event (Dbus_proxy_call m b r) = True"
| "proxy_call_event e = False"

fun connect_failure :: "event \<Rightarrow> bool" where
  "connect_failure (Dbus_proxy_new r) = (case r of Inl msg \<Rightarrow> True | Inr p \<Rightarrow> False)"
| "connect_failure e = False"

text \<open>
  The events of the network quiesce together with the two signals, to place the reads and
  the actions before or after a broadcast.
\<close>

fun quiesce_event :: "event \<Rightarrow> bool" where
  "quiesce_event (Settings_get_boolean k v) = (k = GPM_SETTINGS_NETWORKMANAGER_SLEEP)"
| "quiesce_event Networkmanager_sleep = True"
| "quiesce_event Networkmanager_wake = True"
| "quiesce_event (Signal_emit sig a) = True"
| "quiesce_event e = False"

subsection \<open>Some concrete worlds\<close>

definition env_ok :: env where
  "env_ok =
     \<lparr>logind_running = (\<lambda>h. True),
      settings_value = (\<lambda>h k. True),
      secret_service_reply = (\<lambda>h. Inr ()),
      collections_reply = (\<lambda>h. 2),
      lock_reply = (\<lambda>h. Inr 2),
      keyring_reply = (\<lambda>h. GNOME_KEYRING_RESULT_OK),
      proxy_new_reply = (\<lambda>h. Inr ()),
      proxy_call_reply = (\<lambda>h m. Inr ())\<rparr>"

definition env_no_logind :: env where
  "env_no_logind = env_ok\<lparr>logind_running := (\<lambda>h. False)\<rparr>"

definition env_inhibited :: env where
  "env_inhibited = env_ok\<lparr>proxy_call_reply := (\<lambda>h m. Inl ''inhibited'')\<rparr>"

definition build_libsecret :: build where
  "build_libsecret = \<lparr>with_libsecret = True, with_keyring = False\<rparr>"

definition build_keyring :: build where
  "build_keyring = \<lparr>with_libsecret = False, with_keyring = True\<rparr>"

text \<open>Logind is there at entry and gone at every later probe.\<close>

definition env_logind_vanishes :: env where
  "env_logind_vanishes = env_ok\<lparr>logind_running := (\<lambda>h. h = [])\<rparr>"

text \<open>Logind is running but no proxy to it can be created.\<close>

definition env_no_bus :: env where
  "env_no_bus = env_ok\<lparr>proxy_new_reply := (\<lambda>h. Inl ''no bus'')\<rparr>"

definition env_no_secret_service :: env where
  "env_no_secret_service =
     env_ok\<lparr>secret_service_reply := (\<lambda>h. Inl ''no secret service'')\<rparr>"

text \<open>Every setting is on until the first signal is emitted, and off from then on.\<close>

definition env_quiesce_switched_off :: env where
  "env_quiesce_switched_off =
     env_ok\<lparr>settings_value := (\<lambda>h k. \<not> list_ex signal_event h)\<rparr>"

text \<open>Every setting is off until the first signal is emitted, and on from then on.\<close>

definition env_quiesce_switched_on :: env where
  "env_quiesce_switched_on =
     env_ok\<lparr>settings_value := (\<lambda>h k. list_ex signal_event h)\<rparr>"

text \<open>The keyring is to be locked on hibernate, not on suspend; the network is left alone.\<close>

definition env_lock_on_hibernate_only :: env where
  "env_lock_on_hibernate_only =
     env_ok\<lparr>settings_value := (\<lambda>h k. k = GPM_SETTINGS_LOCK_KEYRING_HIBERNATE)\<rparr>"

text \<open>The secret service is there but has no collection.\<close>

definition env_no_collections :: env where
  "env_no_collections = env_ok\<lparr>collections_reply := (\<lambda>h. 0)\<rparr>"

text \<open>The secret service is there and refuses to lock.\<close>

definition env_lock_refused :: env where
  "env_lock_refused = env_ok\<lparr>lock_reply := (\<lambda>h. Inl ''lock refused'')\<rparr>"

text \<open>gnome-keyring fails to lock.\<close>

definition env_keyring_failed :: env where
  "env_keyring_failed = env_ok\<lparr>keyring_reply := (\<lambda>h. GNOME_KEYRING_RESULT_FAILED)\<rparr>"

section \<open>The controller singleton\<close>

text \<open>
  \<^verbatim>\<open>gpm_control_new\<close> keeps the one instance in the static \<^verbatim>\<open>gpm_control_object\<close> and
  registers that variable as a weak pointer of the instance. The model holds what GObject
  documents about the four functions it calls: \<^verbatim>\<open>g_object_new\<close> returns a new object
  with one reference, \<^verbatim>\<open>g_object_ref\<close> adds a reference, \<^verbatim>\<open>g_object_unref\<close> drops one and
  destroys the object with its last one, and a destroyed object sets its weak pointers to
  \<^verbatim>\<open>NULL\<close>. Objects are named by the number of their allocation, \<open>refcount\<close> maps the
  live \<^verbatim>\<open>GpmControl\<close> objects to their reference counts, and \<open>weak_pointer\<close> is the set of
  objects that have \<^verbatim>\<open>&gpm_control_object\<close> as a weak pointer. Using an object that is no
  longer live is an error of the caller, \<open>None\<close>.
\<close>

record process =
  gpm_control_object :: "nat option"
  refcount :: "nat \<rightharpoonup> nat"
  weak_pointer :: "nat set"
  next_object :: nat

definition process_start :: process where
  "process_start =
     \<lparr>gpm_control_object = None, refcount = Map.empty, weak_pointer = {}, next_object = 0\<rparr>"

definition g_object_new :: "process \<Rightarrow> nat \<times> process" where
  "g_object_new p =
     (next_object p,
      p\<lparr>refcount := (refcount p)(next_object p \<mapsto> 1), next_object := Suc (next_object p)\<rparr>)"

definition g_object_ref :: "nat \<Rightarrow> process \<Rightarrow> process option" where
  "g_object_ref a p =
     (case refcount p a of
        None \<Rightarrow> None
      | Some n \<Rightarrow> Some (p\<lparr>refcount := (refcount p)(a \<mapsto> Suc n)\<rparr>))"

definition g_object_add_weak_pointer :: "nat \<Rightarrow> process \<Rightarrow> process" where
  "g_object_add_weak_pointer a p = p\<lparr>weak_pointer := insert a (weak_pointer p)\<rparr>"

definition g_object_unref :: "nat \<Rightarrow> process \<Rightarrow> process option" where
  "g_object_unref a p =
     (case refcount p a of
        None \<Rightarrow> None
      | Some n \<Rightarrow>
          if n \<le> 1 then
            Some (p\<lparr>gpm_control_object :=
                       (if a \<in> weak_pointer p then None else gpm_control_object p),
                     refcount := (refcount p)(a := None),
                     weak_pointer := weak_pointer p - {a}\<rparr>)
          else Some (p\<lparr>refcount := (refcount p)(a \<mapsto> n - 1)\<rparr>))"

definition gpm_control_new :: "process \<Rightarrow> (nat \<times> process) option" where
  "gpm_control_new p =
     (case gpm_control_object p of
        Some a \<Rightarrow>
          (case g_object_ref a p of
             None \<Rightarrow> None
           | Some p' \<Rightarrow> Some (a, p'))
      | None \<Rightarrow>
          (let (a, p') = g_object_new p;
               p' = p'\<lparr>gpm_control_object := Some a\<rparr>;
               p' = g_object_add_weak_pointer a p'
           in Some (a, p')))"

text \<open>
  What the rest of the program can do with controllers: ask for one, take another reference
  to one, release a reference.
\<close>

datatype client_op = New | Ref nat | Unref nat

fun client_step :: "client_op \<Rightarrow> process \<Rightarrow> process option" where
  "client_step New p = map_option snd (gpm_control_new p)"
| "client_step (Ref a) p = g_object_ref a p"
| "client_step (Unref a) p = g_object_unref a p"

fun client_run :: "client_op list \<Rightarrow> process \<Rightarrow> process option" where
  "client_run [] p = Some p"
| "client_run (c # cs) p =
     (case client_step c p of None \<Rightarrow> None | Some p' \<Rightarrow> client_run cs p')"

text \<open>
  The invariant of the singleton: the live controllers are exactly the one the static
  variable points to, if any; that one has the variable as a weak pointer and was allocated
  before the next object will be; no live object has a reference count of zero.
\<close>

definition singleton_inv :: "process \<Rightarrow> bool" where
  "singleton_inv p \<longleftrightarrow>
     (\<forall>a. a \<in> dom (refcount p) \<longleftrightarrow> gpm_control_object p = Some a)
     \<and> (\<forall>a. gpm_control_object p = Some a \<longrightarrow> a \<in> weak_pointer p \<and> a < next_object p)
     \<and> (\<forall>a. refcount p a \<noteq> Some 0)"

section \<open>Lemmas\<close>

lemmas prim_defs = record_event_def LOGIND_RUNNING_def g_settings_get_boolean_def
  secret_service_get_sync_def secret_service_get_collections_def secret_service_lock_sync_def
  gnome_keyring_lock_all_sync_def gpm_networkmanager_sleep_def gpm_networkmanager_wake_def
  g_signal_emit_def g_warning_def g_debug_def g_dbus_proxy_new_for_bus_sync_def
  g_dbus_proxy_call_sync_def

subsection \<open>Both functions are their phases in sequence\<close>

lemma suspend_phases:
  "gpm_control_suspend B E err =
     (let (running, s) = LOGIND_RUNNING E \<lparr>trace = [], error_out = err\<rparr>
      in if \<not> running then (False, s)
         else do_sleep E GPM_CONTROL_ACTION_SUSPEND ''Suspend''
                (lock_keyrings B E GPM_SETTINGS_LOCK_KEYRING_SUSPEND GPM_SETTINGS_LOCK_KEYRING_SUSPEND s))"
  unfolding gpm_control_suspend_def do_sleep_def pre_sleep_def privileged_call_def
    post_resume_def lock_keyrings_def Let_def
  by (simp only: split_def fst_conv snd_conv if_True if_False)

lemma hibernate_phases:
  "gpm_control_hibernate B E err =
     (let (running, s) = LOGIND_RUNNING E \<lparr>trace = [], error_out = err\<rparr>
      in if \<not> running then (False, s)
         else do_sleep E GPM_CONTROL_ACTION_HIBERNATE ''Hibernate''
                (lock_keyrings B E GPM_SETTINGS_LOCK_KEYRING_SUSPEND GPM_SETTINGS_LOCK_KEYRING_HIBERNATE s))"
  unfolding gpm_control_hibernate_def do_sleep_def pre_sleep_def privileged_call_def
    post_resume_def lock_keyrings_def Let_def
  by (simp only: split_def fst_conv snd_conv if_True if_False)

lemma transition_phases:
  "transition a B E err =
     (if \<not> logind_running E [] then (False, \<lparr>trace = [Logind_running False], error_out = err\<rparr>)
      else do_sleep E a (method_of a)
             (lock_keyrings B E GPM_SETTINGS_LOCK_KEYRING_SUSPEND (keyring_key a)
                \<lparr>trace = [Logind_running True], error_out = err\<rparr>))"
  by (cases a) (simp_all add: transition_def suspend_phases hibernate_phases method_of_def
      keyring_key_def LOGIND_RUNNING_def record_event_def)

subsection \<open>What each phase adds to the trace\<close>

lemma pre_sleep_shape:
  "\<exists>v1. pre_sleep E a s = s\<lparr>trace := trace s @ pre_trace a v1\<rparr>"
  by (rule exI [of _ "settings_value E (trace s) GPM_SETTINGS_NETWORKMANAGER_SLEEP"])
    (simp add: pre_sleep_def prim_defs Let_def pre_trace_def)

lemma privileged_call_shape:
  "\<exists>oc. privileged_call E m s =
          (privileged_ret oc, aborted oc, s\<lparr>trace := trace s @ privileged_trace m oc\<rparr>)"
proof (cases "logind_running E (trace s)")
  case False
  then have "privileged_call E m s =
      (privileged_ret Recheck_failed, aborted Recheck_failed,
       s\<lparr>trace := trace s @ privileged_trace m Recheck_failed\<rparr>)"
    by (simp add: privileged_call_def prim_defs Let_def)
  then show ?thesis by blast
next
  case True
  show ?thesis
  proof (cases "proxy_new_reply E (trace s @ [Logind_running True])")
    case (Inl msg)
    with True have "privileged_call E m s =
        (privileged_ret (Connect_failed msg), aborted (Connect_failed msg),
         s\<lparr>trace := trace s @ privileged_trace m (Connect_failed msg)\<rparr>)"
      by (simp add: privileged_call_def prim_defs Let_def)
    then show ?thesis by blast
  next
    case (Inr u)
    define r where "r = proxy_call_reply E (trace s @ [Logind_running True, Dbus_proxy_new (Inr ())]) m"
    from True Inr have "privileged_call E m s =
        (privileged_ret (Call_replied r), aborted (Call_replied r),
         s\<lparr>trace := trace s @ privileged_trace m (Call_replied r)\<rparr>)"
      by (cases r) (simp_all add: privileged_call_def prim_defs Let_def r_def)
    then show ?thesis by blast
  qed
qed

lemma post_resume_shape:
  "\<exists>v2. post_resume E a s = s\<lparr>trace := trace s @ resume_trace a v2\<rparr>"
  by (rule exI [of _ "settings_value E
        (trace s @ [Debug ''emitting resume'', Signal_emit RESUME a]) GPM_SETTINGS_NETWORKMANAGER_SLEEP"])
    (simp add: post_resume_def prim_defs Let_def resume_trace_def)

lemma do_sleep_shape:
  "\<exists>v1 oc v2. do_sleep E a m s = (privileged_ret oc, s\<lparr>trace := trace s @ sleep_trace a m v1 oc v2\<rparr>)"
proof -
  obtain v1 where 1: "pre_sleep E a s = s\<lparr>trace := trace s @ pre_trace a v1\<rparr>"
    using pre_sleep_shape by blast
  define s1 where "s1 = pre_sleep E a s"
  obtain oc where 2: "privileged_call E m s1 =
          (privileged_ret oc, aborted oc, s1\<lparr>trace := trace s1 @ privileged_trace m oc\<rparr>)"
    using privileged_call_shape by blast
  define s2 where "s2 = s1\<lparr>trace := trace s1 @ privileged_trace m oc\<rparr>"
  obtain v2 where 3: "post_resume E a s2 = s2\<lparr>trace := trace s2 @ resume_trace a v2\<rparr>"
    using post_resume_shape by blast
  have "do_sleep E a m s = (privileged_ret oc, s\<lparr>trace := trace s @ sleep_trace a m v1 oc v2\<rparr>)"
    using 1 2 3 by (simp add: do_sleep_def s1_def s2_def sleep_trace_def)
  then show ?thesis by blast
qed

lemma lock_keyrings_shape:
  assumes "k1 \<noteq> GPM_SETTINGS_NETWORKMANAGER_SLEEP" "k2 \<noteq> GPM_SETTINGS_NETWORKMANAGER_SLEEP"
  shows "\<exists>ks. trace (lock_keyrings B E k1 k2 s) = trace s @ ks \<and> list_all credential_event ks"
  using assms
  by (simp add: lock_keyrings_def prim_defs Let_def split: sum.splits)

subsection \<open>A whole transition\<close>

lemma keyring_key_not_nm: "keyring_key a \<noteq> GPM_SETTINGS_NETWORKMANAGER_SLEEP"
  by (cases a) (simp_all add: keyring_key_def)

lemma transition_unavailable:
  "\<not> logind_running E [] \<Longrightarrow>
   transition a B E err = (False, \<lparr>trace = [Logind_running False], error_out = err\<rparr>)"
  by (simp add: transition_phases)

lemma transition_shape:
  assumes "logind_running E []" and "transition a B E err = (ret, s)"
  obtains ks v1 oc v2 where
    "trace s = Logind_running True # ks @ sleep_trace a (method_of a) v1 oc v2"
    "list_all credential_event ks"
    "ret = privileged_ret oc"
    "trace (lock_keyrings B E GPM_SETTINGS_LOCK_KEYRING_SUSPEND (keyring_key a)
              \<lparr>trace = [Logind_running True], error_out = err\<rparr>) = Logind_running True # ks"
    "error_out s = error_out (lock_keyrings B E GPM_SETTINGS_LOCK_KEYRING_SUSPEND (keyring_key a)
              \<lparr>trace = [Logind_running True], error_out = err\<rparr>)"
proof -
  define L where "L = lock_keyrings B E GPM_SETTINGS_LOCK_KEYRING_SUSPEND (keyring_key a)
              \<lparr>trace = [Logind_running True], error_out = err\<rparr>"
  obtain ks where ks: "trace L = Logind_running True # ks" "list_all credential_event ks"
    using lock_keyrings_shape [of GPM_SETTINGS_LOCK_KEYRING_SUSPEND "keyring_key a" B E
        "\<lparr>trace = [Logind_running True], error_out = err\<rparr>"] keyring_key_not_nm [of a]
    by (auto simp: L_def)
  obtain v1 oc v2 where sl: "do_sleep E a (method_of a) L =
      (privileged_ret oc, L\<lparr>trace := trace L @ sleep_trace a (method_of a) v1 oc v2\<rparr>)"
    using do_sleep_shape by blast
  from assms have "transition a B E err = do_sleep E a (method_of a) L"
    by (simp add: transition_phases L_def)
  with assms(2) sl ks have "trace s = Logind_running True # ks @ sleep_trace a (method_of a) v1 oc v2"
    "ret = privileged_ret oc" "error_out s = error_out L"
    by auto
  with ks show thesis using that [of ks v1 oc v2] by (simp add: L_def)
qed

subsection \<open>The keyring blocks emit no signal, make no call and leave the network alone\<close>

lemma credential_not_transition: "credential_event e \<Longrightarrow> \<not> transition_event e"
  by (cases e) simp_all

lemma credential_filter: "list_all credential_event ks \<Longrightarrow> filter transition_event ks = []"
  by (induction ks) (auto dest: credential_not_transition)

lemma credential_notin: "list_all credential_event ks \<Longrightarrow> \<not> credential_event e \<Longrightarrow> e \<notin> set ks"
  by (auto simp: list_all_iff)

lemmas shape_defs = sleep_trace_def pre_trace_def resume_trace_def

lemma credential_not_connect_failure: "credential_event e \<Longrightarrow> \<not> connect_failure e"
  by (cases e) simp_all

lemma credential_no_connect_failure:
  "list_all credential_event ks \<Longrightarrow> \<not> list_ex connect_failure ks"
  by (induction ks) (auto dest: credential_not_connect_failure)

subsection \<open>The same, with the answers of the world spelled out\<close>

lemma pre_sleep_exact:
  "pre_sleep E a s =
     s\<lparr>trace := trace s @ pre_trace a (settings_value E (trace s) GPM_SETTINGS_NETWORKMANAGER_SLEEP)\<rparr>"
  by (simp add: pre_sleep_def prim_defs Let_def pre_trace_def)

lemma post_resume_exact:
  "post_resume E a s =
     s\<lparr>trace := trace s @ resume_trace a
        (settings_value E (trace s @ [Debug ''emitting resume'', Signal_emit RESUME a])
           GPM_SETTINGS_NETWORKMANAGER_SLEEP)\<rparr>"
  by (simp add: post_resume_def prim_defs Let_def resume_trace_def)

lemma privileged_call_reached:
  assumes "\<forall>h. logind_running E h" and "\<forall>h. proxy_new_reply E h = Inr ()"
  shows "\<exists>r. privileged_call E m s =
          (True, False, s\<lparr>trace := trace s @ privileged_trace m (Call_replied r)\<rparr>)"
proof -
  define r where "r = proxy_call_reply E (trace s @ [Logind_running True, Dbus_proxy_new (Inr ())]) m"
  from assms have "privileged_call E m s =
      (True, False, s\<lparr>trace := trace s @ privileged_trace m (Call_replied r)\<rparr>)"
    by (cases r) (simp_all add: privileged_call_def prim_defs Let_def r_def)
  then show ?thesis by blast
qed

lemma do_sleep_exact:
  "\<exists>oc. do_sleep E a m s =
     (privileged_ret oc,
      s\<lparr>trace := trace s @ sleep_trace a m
         (settings_value E (trace s) GPM_SETTINGS_NETWORKMANAGER_SLEEP) oc
         (settings_value E
            (trace s @ pre_trace a (settings_value E (trace s) GPM_SETTINGS_NETWORKMANAGER_SLEEP)
               @ privileged_trace m oc @ [Debug ''emitting resume'', Signal_emit RESUME a])
            GPM_SETTINGS_NETWORKMANAGER_SLEEP)\<rparr>)"
proof -
  define s1 where "s1 = pre_sleep E a s"
  obtain oc where 2: "privileged_call E m s1 =
          (privileged_ret oc, aborted oc, s1\<lparr>trace := trace s1 @ privileged_trace m oc\<rparr>)"
    using privileged_call_shape by blast
  have "do_sleep E a m s =
     (privileged_ret oc,
      s\<lparr>trace := trace s @ sleep_trace a m
         (settings_value E (trace s) GPM_SETTINGS_NETWORKMANAGER_SLEEP) oc
         (settings_value E
            (trace s @ pre_trace a (settings_value E (trace s) GPM_SETTINGS_NETWORKMANAGER_SLEEP)
               @ privileged_trace m oc @ [Debug ''emitting resume'', Signal_emit RESUME a])
            GPM_SETTINGS_NETWORKMANAGER_SLEEP)\<rparr>)"
    using 2 by (simp add: do_sleep_def s1_def sleep_trace_def pre_sleep_exact post_resume_exact)
  then show ?thesis by blast
qed

lemma do_sleep_reached:
  assumes "\<forall>h. logind_running E h" and "\<forall>h. proxy_new_reply E h = Inr ()"
  shows "\<exists>v1 r v2. do_sleep E a m s =
     (True, s\<lparr>trace := trace s @ sleep_trace a m v1 (Call_replied r) v2\<rparr>)"
proof -
  define s1 where "s1 = pre_sleep E a s"
  obtain r where 2: "privileged_call E m s1 =
          (True, False, s1\<lparr>trace := trace s1 @ privileged_trace m (Call_replied r)\<rparr>)"
    using privileged_call_reached [OF assms] by blast
  have "do_sleep E a m s =
     (True,
      s\<lparr>trace := trace s @ sleep_trace a m
         (settings_value E (trace s) GPM_SETTINGS_NETWORKMANAGER_SLEEP) (Call_replied r)
         (settings_value E
            (trace s @ pre_trace a (settings_value E (trace s) GPM_SETTINGS_NETWORKMANAGER_SLEEP)
               @ privileged_trace m (Call_replied r) @ [Debug ''emitting resume'', Signal_emit RESUME a])
            GPM_SETTINGS_NETWORKMANAGER_SLEEP)\<rparr>)"
    using 2 by (simp add: do_sleep_def s1_def sleep_trace_def pre_sleep_exact post_resume_exact)
  then show ?thesis by blast
qed

lemma transition_exact:
  assumes "logind_running E []" and "transition a B E err = (ret, s)"
  obtains ks oc where
    "trace s = Logind_running True # ks @ sleep_trace a (method_of a)
       (settings_value E (Logind_running True # ks) GPM_SETTINGS_NETWORKMANAGER_SLEEP) oc
       (settings_value E
          (Logind_running True # ks
             @ pre_trace a (settings_value E (Logind_running True # ks) GPM_SETTINGS_NETWORKMANAGER_SLEEP)
             @ privileged_trace (method_of a) oc @ [Debug ''emitting resume'', Signal_emit RESUME a])
          GPM_SETTINGS_NETWORKMANAGER_SLEEP)"
    "list_all credential_event ks"
proof -
  define L where "L = lock_keyrings B E GPM_SETTINGS_LOCK_KEYRING_SUSPEND (keyring_key a)
              \<lparr>trace = [Logind_running True], error_out = err\<rparr>"
  obtain ks where ks: "trace L = Logind_running True # ks" "list_all credential_event ks"
    using lock_keyrings_shape [of GPM_SETTINGS_LOCK_KEYRING_SUSPEND "keyring_key a" B E
        "\<lparr>trace = [Logind_running True], error_out = err\<rparr>"] keyring_key_not_nm [of a]
    by (auto simp: L_def)
  obtain oc where sl: "do_sleep E a (method_of a) L =
     (privileged_ret oc,
      L\<lparr>trace := trace L @ sleep_trace a (method_of a)
         (settings_value E (trace L) GPM_SETTINGS_NETWORKMANAGER_SLEEP) oc
         (settings_value E
            (trace L @ pre_trace a (settings_value E (trace L) GPM_SETTINGS_NETWORKMANAGER_SLEEP)
               @ privileged_trace (method_of a) oc @ [Debug ''emitting resume'', Signal_emit RESUME a])
            GPM_SETTINGS_NETWORKMANAGER_SLEEP)\<rparr>)"
    using do_sleep_exact by blast
  from assms have "transition a B E err = do_sleep E a (method_of a) L"
    by (simp add: transition_phases L_def)
  with assms(2) sl have "trace s = trace L @ sleep_trace a (method_of a)
         (settings_value E (trace L) GPM_SETTINGS_NETWORKMANAGER_SLEEP) oc
         (settings_value E
            (trace L @ pre_trace a (settings_value E (trace L) GPM_SETTINGS_NETWORKMANAGER_SLEEP)
               @ privileged_trace (method_of a) oc @ [Debug ''emitting resume'', Signal_emit RESUME a])
            GPM_SETTINGS_NETWORKMANAGER_SLEEP)"
    by auto
  with ks show thesis using that [of ks oc] by simp
qed

lemma transition_reached:
  assumes "\<forall>h. logind_running E h" and "\<forall>h. proxy_new_reply E h = Inr ()"
    and "transition a B E err = (ret, s)"
  obtains ks v1 r v2 where
    "trace s = Logind_running True # ks @ sleep_trace a (method_of a) v1 (Call_replied r) v2"
    "list_all credential_event ks"
    "ret"
    "trace (lock_keyrings B E GPM_SETTINGS_LOCK_KEYRING_SUSPEND (keyring_key a)
              \<lparr>trace = [Logind_running True], error_out = err\<rparr>) = Logind_running True # ks"
    "error_out s = error_out (lock_keyrings B E GPM_SETTINGS_LOCK_KEYRING_SUSPEND (keyring_key a)
              \<lparr>trace = [Logind_running True], error_out = err\<rparr>)"
proof -
  define L where "L = lock_keyrings B E GPM_SETTINGS_LOCK_KEYRING_SUSPEND (keyring_key a)
              \<lparr>trace = [Logind_running True], error_out = err\<rparr>"
  obtain ks where ks: "trace L = Logind_running True # ks" "list_all credential_event ks"
    using lock_keyrings_shape [of GPM_SETTINGS_LOCK_KEYRING_SUSPEND "keyring_key a" B E
        "\<lparr>trace = [Logind_running True], error_out = err\<rparr>"] keyring_key_not_nm [of a]
    by (auto simp: L_def)
  obtain v1 r v2 where sl: "do_sleep E a (method_of a) L =
      (True, L\<lparr>trace := trace L @ sleep_trace a (method_of a) v1 (Call_replied r) v2\<rparr>)"
    using do_sleep_reached [OF assms(1,2)] by blast
  from assms have "transition a B E err = do_sleep E a (method_of a) L"
    by (simp add: transition_phases L_def)
  with assms(3) sl ks
  have "trace s = Logind_running True # ks @ sleep_trace a (method_of a) v1 (Call_replied r) v2"
    "ret" "error_out s = error_out L"
    by auto
  with ks show thesis using that [of ks v1 r v2] by (simp add: L_def)
qed

lemma credential_not_quiesce: "credential_event e \<Longrightarrow> \<not> quiesce_event e"
  by (cases e) simp_all

lemma credential_quiesce_filter: "list_all credential_event ks \<Longrightarrow> filter quiesce_event ks = []"
  by (induction ks) (auto dest: credential_not_quiesce)

lemma credential_takeWhile:
  assumes "list_all credential_event ks" and "\<And>e. credential_event e \<Longrightarrow> P e"
  shows "takeWhile P (ks @ rest) = ks @ takeWhile P rest"
  using assms by (induction ks) auto

text \<open>What the libsecret block leaves in the caller's error when the world is fixed.\<close>

lemma lock_keyrings_connect_error:
  assumes "with_libsecret B"
    and "\<forall>h. settings_value E h k1"
    and "\<forall>h. secret_service_reply E h = Inl e"
  shows "error_out (lock_keyrings B E k1 k2 \<lparr>trace = t, error_out = Some None\<rparr>) = Some (Some e)
       \<and> Secret_service_get (Inl e)
           \<in> set (trace (lock_keyrings B E k1 k2 \<lparr>trace = t, error_out = Some None\<rparr>))"
  using assms
  by (simp add: lock_keyrings_def prim_defs Let_def g_propagate_error_def)

lemma lock_keyrings_lock_error:
  assumes "with_libsecret B"
    and "\<forall>h. settings_value E h k1"
    and "\<forall>h. secret_service_reply E h = Inr ()"
    and "\<forall>h. 0 < collections_reply E h"
    and "\<forall>h. lock_reply E h = Inl e"
  shows "error_out (lock_keyrings B E k1 k2 \<lparr>trace = t, error_out = Some None\<rparr>) = Some (Some e)
       \<and> Secret_service_lock (Inl e)
           \<in> set (trace (lock_keyrings B E k1 k2 \<lparr>trace = t, error_out = Some None\<rparr>))"
  using assms
  by (simp add: lock_keyrings_def prim_defs Let_def g_propagate_error_def)

lemmas run_defs = transition_def gpm_control_suspend_def gpm_control_hibernate_def
  prim_defs g_propagate_error_def Let_def

subsection \<open>The invariant of the singleton\<close>

lemmas gobject_defs = g_object_new_def g_object_ref_def g_object_add_weak_pointer_def
  g_object_unref_def gpm_control_new_def

lemma singleton_inv_start: "singleton_inv process_start"
  by (simp add: singleton_inv_def process_start_def)

lemma singleton_inv_live:
  assumes "singleton_inv p" and "refcount p a = Some n"
  shows "gpm_control_object p = Some a" and "a \<in> weak_pointer p" and "a < next_object p"
    and "0 < n" and "\<And>b. b \<noteq> a \<Longrightarrow> refcount p b = None"
proof -
  from assms show g: "gpm_control_object p = Some a"
    by (auto simp: singleton_inv_def)
  with assms(1) show "a \<in> weak_pointer p" and "a < next_object p"
    by (auto simp: singleton_inv_def)
  from assms show "0 < n"
    by (cases n) (auto simp: singleton_inv_def)
  fix b assume "b \<noteq> a"
  with assms(1) g show "refcount p b = None"
    by (auto simp: singleton_inv_def dom_def)
qed

lemma singleton_inv_step:
  assumes "singleton_inv p" and "client_step c p = Some p'"
  shows "singleton_inv p'"
proof (cases c)
  case New
  with assms show ?thesis
    by (auto simp: singleton_inv_def gobject_defs split: option.splits if_splits)
next
  case (Ref a)
  with assms show ?thesis
    by (auto simp: singleton_inv_def gobject_defs split: option.splits if_splits)
next
  case (Unref a)
  with assms(2) obtain n where n: "refcount p a = Some n"
    by (auto simp: g_object_unref_def split: option.splits)
  note live = singleton_inv_live [OF assms(1) n]
  show ?thesis
  proof (cases "n \<le> 1")
    case True
    with Unref assms(2) n live(2)
    have p': "p' = p\<lparr>gpm_control_object := None, refcount := (refcount p)(a := None),
                      weak_pointer := weak_pointer p - {a}\<rparr>"
      by (simp add: g_object_unref_def)
    from live(5) have "(refcount p)(a := None) = Map.empty"
      by (auto simp: fun_eq_iff)
    with p' show ?thesis by (simp add: singleton_inv_def)
  next
    case False
    with Unref assms(2) n have p': "p' = p\<lparr>refcount := (refcount p)(a \<mapsto> n - 1)\<rparr>"
      by (simp add: g_object_unref_def)
    show ?thesis
      unfolding singleton_inv_def p' using live(1,2,3,5) False by (auto simp: dom_def)
  qed
qed

lemma singleton_inv_run:
  "singleton_inv p \<Longrightarrow> client_run cs p = Some p' \<Longrightarrow> singleton_inv p'"
proof (induction cs arbitrary: p)
  case Nil
  then show ?case by simp
next
  case (Cons c cs)
  then show ?case
    by (auto split: option.splits dest: singleton_inv_step)
qed

section \<open>The claims\<close>

text \<open>
  C1. When the login manager is reported unavailable at entry, suspend and hibernate return
  failure and nothing happens: the trace of the invocation holds the availability probe and
  nothing else (no keyring lock, no network action, no signal, no call to logind), and the
  caller's error is left as it was.
\<close>

theorem unavailable_no_side_effects:
  "\<not> logind_running E [] \<Longrightarrow>
   transition a B E err = (False, \<lparr>trace = [Logind_running False], error_out = err\<rparr>)"
  by (simp add: transition_phases)

theorem unavailable_no_side_effects_witness:
  "\<not> logind_running env_no_logind [] \<and>
   transition GPM_CONTROL_ACTION_HIBERNATE build_libsecret env_no_logind (Some None) =
     (False, \<lparr>trace = [Logind_running False], error_out = Some None\<rparr>)"
proof -
  have h: "\<not> logind_running env_no_logind []"
    by (simp add: env_no_logind_def env_ok_def)
  show ?thesis
    using h unavailable_no_side_effects [OF h, of GPM_CONTROL_ACTION_HIBERNATE build_libsecret "Some None"]
    by simp
qed

text \<open>
  C2. In an invocation that dispatches the privileged call, the signals and logind calls of
  the trace are exactly: the sleep signal with the transition kind, then the call (Suspend
  or Hibernate, interactive flag false), then the resume signal with the same kind, whatever
  the call answered.
\<close>

theorem sleep_before_call_before_resume:
  assumes "transition a B E err = (ret, s)"
    and "Dbus_proxy_call m b r \<in> set (trace s)"
  shows "filter transition_event (trace s) =
           [Signal_emit SLEEP a, Dbus_proxy_call (method_of a) False r, Signal_emit RESUME a]"
proof (cases "logind_running E []")
  case False
  with assms show ?thesis by (auto simp: transition_unavailable)
next
  case True
  from True assms(1) obtain ks v1 oc v2 where
    tr: "trace s = Logind_running True # ks @ sleep_trace a (method_of a) v1 oc v2"
    and ks: "list_all credential_event ks"
    by (rule transition_shape)
  from ks have "Dbus_proxy_call m b r \<notin> set ks" by (rule credential_notin) simp
  with assms(2) tr have "Dbus_proxy_call m b r \<in> set (sleep_trace a (method_of a) v1 oc v2)"
    by simp
  then have "oc = Call_replied r"
    by (cases oc) (auto simp: shape_defs split: if_splits sum.splits)
  with tr credential_filter [OF ks] show ?thesis
    by (simp add: shape_defs split: sum.splits)
qed

theorem sleep_before_call_before_resume_witness:
  "transition GPM_CONTROL_ACTION_SUSPEND build_keyring env_inhibited None =
     (True,
      \<lparr>trace =
         [Logind_running True,
          Settings_get_boolean GPM_SETTINGS_LOCK_KEYRING_SUSPEND True,
          Gnome_keyring_lock_all GNOME_KEYRING_RESULT_OK,
          Settings_get_boolean GPM_SETTINGS_NETWORKMANAGER_SLEEP True,
          Networkmanager_sleep,
          Debug ''emitting sleep'',
          Signal_emit SLEEP GPM_CONTROL_ACTION_SUSPEND,
          Logind_running True,
          Dbus_proxy_new (Inr ()),
          Dbus_proxy_call ''Suspend'' False (Inl ''inhibited''),
          Warning ''Error in dbus - inhibited'',
          Debug ''emitting resume'',
          Signal_emit RESUME GPM_CONTROL_ACTION_SUSPEND,
          Settings_get_boolean GPM_SETTINGS_NETWORKMANAGER_SLEEP True,
          Networkmanager_wake],
       error_out = None\<rparr>) \<and>
   filter transition_event
     [Logind_running True,
      Settings_get_boolean GPM_SETTINGS_LOCK_KEYRING_SUSPEND True,
      Gnome_keyring_lock_all GNOME_KEYRING_RESULT_OK,
      Settings_get_boolean GPM_SETTINGS_NETWORKMANAGER_SLEEP True,
      Networkmanager_sleep,
      Debug ''emitting sleep'',
      Signal_emit SLEEP GPM_CONTROL_ACTION_SUSPEND,
      Logind_running True,
      Dbus_proxy_new (Inr ()),
      Dbus_proxy_call ''Suspend'' False (Inl ''inhibited''),
      Warning ''Error in dbus - inhibited'',
      Debug ''emitting resume'',
      Signal_emit RESUME GPM_CONTROL_ACTION_SUSPEND,
      Settings_get_boolean GPM_SETTINGS_NETWORKMANAGER_SLEEP True,
      Networkmanager_wake] =
     [Signal_emit SLEEP GPM_CONTROL_ACTION_SUSPEND,
      Dbus_proxy_call (method_of GPM_CONTROL_ACTION_SUSPEND) False (Inl ''inhibited''),
      Signal_emit RESUME GPM_CONTROL_ACTION_SUSPEND]"
proof -
  let ?t = "[Logind_running True,
          Settings_get_boolean GPM_SETTINGS_LOCK_KEYRING_SUSPEND True,
          Gnome_keyring_lock_all GNOME_KEYRING_RESULT_OK,
          Settings_get_boolean GPM_SETTINGS_NETWORKMANAGER_SLEEP True,
          Networkmanager_sleep,
          Debug ''emitting sleep'',
          Signal_emit SLEEP GPM_CONTROL_ACTION_SUSPEND,
          Logind_running True,
          Dbus_proxy_new (Inr ()),
          Dbus_proxy_call ''Suspend'' False (Inl ''inhibited''),
          Warning ''Error in dbus - inhibited'',
          Debug ''emitting resume'',
          Signal_emit RESUME GPM_CONTROL_ACTION_SUSPEND,
          Settings_get_boolean GPM_SETTINGS_NETWORKMANAGER_SLEEP True,
          Networkmanager_wake]"
  have run: "transition GPM_CONTROL_ACTION_SUSPEND build_keyring env_inhibited None =
      (True, \<lparr>trace = ?t, error_out = None\<rparr>)"
    by (simp add: run_defs env_inhibited_def env_ok_def build_keyring_def)
  have call: "Dbus_proxy_call ''Suspend'' False (Inl ''inhibited'')
      \<in> set (trace \<lparr>trace = ?t, error_out = None\<rparr>)"
    by simp
  show ?thesis
    using run sleep_before_call_before_resume [OF run call] by simp
qed

text \<open>
  C4. When the privileged call comes back with an error reply, the operation still returns
  success and the resume signal is still emitted.
\<close>

theorem remote_error_still_success:
  assumes "transition a B E err = (ret, s)"
    and "Dbus_proxy_call m b (Inl e) \<in> set (trace s)"
  shows "ret \<and> Signal_emit RESUME a \<in> set (trace s)"
proof (cases "logind_running E []")
  case False
  with assms show ?thesis by (auto simp: transition_unavailable)
next
  case True
  from True assms(1) obtain ks v1 oc v2 where
    tr: "trace s = Logind_running True # ks @ sleep_trace a (method_of a) v1 oc v2"
    and ks: "list_all credential_event ks" and ret: "ret = privileged_ret oc"
    by (rule transition_shape)
  from ks have "Dbus_proxy_call m b (Inl e) \<notin> set ks" by (rule credential_notin) simp
  with assms(2) tr have "Dbus_proxy_call m b (Inl e) \<in> set (sleep_trace a (method_of a) v1 oc v2)"
    by simp
  then have "oc = Call_replied (Inl e)"
    by (cases oc) (auto simp: shape_defs split: if_splits sum.splits)
  with tr ret show ?thesis
    by (simp add: shape_defs)
qed

theorem remote_error_still_success_witness:
  "Dbus_proxy_call ''Hibernate'' False (Inl ''inhibited'')
     \<in> set (trace (snd (transition GPM_CONTROL_ACTION_HIBERNATE build_libsecret env_inhibited None))) \<and>
   fst (transition GPM_CONTROL_ACTION_HIBERNATE build_libsecret env_inhibited None) \<and>
   Signal_emit RESUME GPM_CONTROL_ACTION_HIBERNATE
     \<in> set (trace (snd (transition GPM_CONTROL_ACTION_HIBERNATE build_libsecret env_inhibited None)))"
proof -
  let ?R = "transition GPM_CONTROL_ACTION_HIBERNATE build_libsecret env_inhibited None"
  have call: "Dbus_proxy_call ''Hibernate'' False (Inl ''inhibited'') \<in> set (trace (snd ?R))"
    by (simp add: run_defs env_inhibited_def env_ok_def build_libsecret_def)
  show ?thesis
    using call remote_error_still_success [OF prod.collapse [symmetric] call] by simp
qed

text \<open>
  C5, as stated, fails on the code: when the second \<^verbatim>\<open>LOGIND_RUNNING()\<close> is false the
  block with the call is skipped, the function falls through to the resume signal and only
  then returns \<^verbatim>\<open>FALSE\<close>. In the run below logind is there at entry and gone at the
  re-check: suspend returns failure, and the resume signal has been emitted.
\<close>

theorem failed_recheck_counterexample:
  "transition GPM_CONTROL_ACTION_SUSPEND build_keyring env_logind_vanishes None =
     (False,
      \<lparr>trace =
         [Logind_running True,
          Settings_get_boolean GPM_SETTINGS_LOCK_KEYRING_SUSPEND True,
          Gnome_keyring_lock_all GNOME_KEYRING_RESULT_OK,
          Settings_get_boolean GPM_SETTINGS_NETWORKMANAGER_SLEEP True,
          Networkmanager_sleep,
          Debug ''emitting sleep'',
          Signal_emit SLEEP GPM_CONTROL_ACTION_SUSPEND,
          Logind_running False,
          Debug ''emitting resume'',
          Signal_emit RESUME GPM_CONTROL_ACTION_SUSPEND,
          Settings_get_boolean GPM_SETTINGS_NETWORKMANAGER_SLEEP True,
          Networkmanager_wake],
       error_out = None\<rparr>) \<and>
   Signal_emit RESUME GPM_CONTROL_ACTION_SUSPEND
     \<in> set (trace (snd (transition GPM_CONTROL_ACTION_SUSPEND build_keyring env_logind_vanishes None)))"
  by (simp add: run_defs env_logind_vanishes_def env_ok_def build_keyring_def)

text \<open>
  C5, amended. When the proxy to the login manager cannot be created, the operation returns
  failure and the only signal or logind call of the invocation is the sleep signal: no call,
  no resume. When instead the re-check of availability (any probe after the first event of
  the trace) finds logind gone, the operation returns failure and makes no call, and the
  resume signal is emitted after the sleep signal.
\<close>

theorem transport_failure_outcome:
  assumes "transition a B E err = (ret, s)"
  shows "(list_ex connect_failure (trace s) \<longrightarrow>
            \<not> ret \<and> filter transition_event (trace s) = [Signal_emit SLEEP a])
       \<and> (Logind_running False \<in> set (tl (trace s)) \<longrightarrow>
            \<not> ret \<and> filter transition_event (trace s) = [Signal_emit SLEEP a, Signal_emit RESUME a])"
proof (cases "logind_running E []")
  case False
  with assms show ?thesis by (auto simp: transition_unavailable)
next
  case True
  from True assms(1) obtain ks v1 oc v2 where
    tr: "trace s = Logind_running True # ks @ sleep_trace a (method_of a) v1 oc v2"
    and ks: "list_all credential_event ks" and ret: "ret = privileged_ret oc"
    by (rule transition_shape)
  have b: "Logind_running False \<notin> set ks" using ks by (rule credential_notin) simp
  show ?thesis
    using tr ret b credential_no_connect_failure [OF ks] credential_filter [OF ks]
    by (cases oc) (auto simp: shape_defs split: sum.splits)
qed

theorem transport_failure_outcome_witness:
  "list_ex connect_failure
     (trace (snd (transition GPM_CONTROL_ACTION_HIBERNATE build_libsecret env_no_bus None))) \<and>
   \<not> fst (transition GPM_CONTROL_ACTION_HIBERNATE build_libsecret env_no_bus None) \<and>
   filter transition_event
     (trace (snd (transition GPM_CONTROL_ACTION_HIBERNATE build_libsecret env_no_bus None)))
     = [Signal_emit SLEEP GPM_CONTROL_ACTION_HIBERNATE] \<and>
   Logind_running False
     \<in> set (tl (trace (snd (transition GPM_CONTROL_ACTION_SUSPEND build_keyring env_logind_vanishes None)))) \<and>
   \<not> fst (transition GPM_CONTROL_ACTION_SUSPEND build_keyring env_logind_vanishes None) \<and>
   filter transition_event
     (trace (snd (transition GPM_CONTROL_ACTION_SUSPEND build_keyring env_logind_vanishes None)))
     = [Signal_emit SLEEP GPM_CONTROL_ACTION_SUSPEND, Signal_emit RESUME GPM_CONTROL_ACTION_SUSPEND]"
proof -
  let ?R1 = "transition GPM_CONTROL_ACTION_HIBERNATE build_libsecret env_no_bus None"
  let ?R2 = "transition GPM_CONTROL_ACTION_SUSPEND build_keyring env_logind_vanishes None"
  have h1: "list_ex connect_failure (trace (snd ?R1))"
    by (simp add: run_defs env_no_bus_def env_ok_def build_libsecret_def)
  have h2: "Logind_running False \<in> set (tl (trace (snd ?R2)))"
    by (simp add: run_defs env_logind_vanishes_def env_ok_def build_keyring_def)
  show ?thesis
    using h1 h2
      transport_failure_outcome [OF prod.collapse [symmetric], of GPM_CONTROL_ACTION_HIBERNATE
        build_libsecret env_no_bus None]
      transport_failure_outcome [OF prod.collapse [symmetric], of GPM_CONTROL_ACTION_SUSPEND
        build_keyring env_logind_vanishes None]
    by simp
qed

text \<open>
  C6. A failure of the credential lock (the secret service cannot be reached, it has no
  collections, nothing could be locked, or gnome-keyring reports a failure) does not change
  the outcome of an otherwise-successful call: in every world where logind is running at
  every probe and the proxy to it can always be created, an invocation in which the lock
  fails returns success, and its signals and logind calls are the sleep signal, the
  privileged call and the resume signal.
\<close>

theorem lock_failure_is_advisory:
  assumes "transition a B E err = (ret, s)"
    and "list_ex credential_failure (trace s)"
    and "\<forall>h. logind_running E h"
    and "\<forall>h. proxy_new_reply E h = Inr ()"
  shows "ret \<and> (\<exists>r. filter transition_event (trace s) =
           [Signal_emit SLEEP a, Dbus_proxy_call (method_of a) False r, Signal_emit RESUME a])"
proof -
  from assms(3,4,1) obtain ks v1 r v2 where
    tr: "trace s = Logind_running True # ks @ sleep_trace a (method_of a) v1 (Call_replied r) v2"
    and ks: "list_all credential_event ks" and ret: "ret"
    by (rule transition_reached)
  show ?thesis
    using tr ret credential_filter [OF ks]
    by (auto simp: shape_defs split: sum.splits)
qed

theorem lock_failure_is_advisory_witness:
  "(Secret_service_get (Inl ''no secret service'')
      \<in> set (trace (snd (transition GPM_CONTROL_ACTION_SUSPEND build_libsecret env_no_secret_service None))) \<and>
    (\<forall>h. logind_running env_no_secret_service h) \<and>
    (\<forall>h. proxy_new_reply env_no_secret_service h = Inr ()) \<and>
    fst (transition GPM_CONTROL_ACTION_SUSPEND build_libsecret env_no_secret_service None) \<and>
    filter transition_event
      (trace (snd (transition GPM_CONTROL_ACTION_SUSPEND build_libsecret env_no_secret_service None)))
      = [Signal_emit SLEEP GPM_CONTROL_ACTION_SUSPEND,
         Dbus_proxy_call ''Suspend'' False (Inr ()),
         Signal_emit RESUME GPM_CONTROL_ACTION_SUSPEND]) \<and>
   (Secret_service_get_collections 0
      \<in> set (trace (snd (transition GPM_CONTROL_ACTION_HIBERNATE build_libsecret env_no_collections None))) \<and>
    (\<forall>h. logind_running env_no_collections h) \<and>
    (\<forall>h. proxy_new_reply env_no_collections h = Inr ()) \<and>
    fst (transition GPM_CONTROL_ACTION_HIBERNATE build_libsecret env_no_collections None) \<and>
    filter transition_event
      (trace (snd (transition GPM_CONTROL_ACTION_HIBERNATE build_libsecret env_no_collections None)))
      = [Signal_emit SLEEP GPM_CONTROL_ACTION_HIBERNATE,
         Dbus_proxy_call ''Hibernate'' False (Inr ()),
         Signal_emit RESUME GPM_CONTROL_ACTION_HIBERNATE]) \<and>
   (Secret_service_lock (Inl ''lock refused'')
      \<in> set (trace (snd (transition GPM_CONTROL_ACTION_SUSPEND build_libsecret env_lock_refused None))) \<and>
    (\<forall>h. logind_running env_lock_refused h) \<and>
    (\<forall>h. proxy_new_reply env_lock_refused h = Inr ()) \<and>
    fst (transition GPM_CONTROL_ACTION_SUSPEND build_libsecret env_lock_refused None) \<and>
    filter transition_event
      (trace (snd (transition GPM_CONTROL_ACTION_SUSPEND build_libsecret env_lock_refused None)))
      = [Signal_emit SLEEP GPM_CONTROL_ACTION_SUSPEND,
         Dbus_proxy_call ''Suspend'' False (Inr ()),
         Signal_emit RESUME GPM_CONTROL_ACTION_SUSPEND]) \<and>
   (Gnome_keyring_lock_all GNOME_KEYRING_RESULT_FAILED
      \<in> set (trace (snd (transition GPM_CONTROL_ACTION_HIBERNATE build_keyring env_keyring_failed None))) \<and>
    (\<forall>h. logind_running env_keyring_failed h) \<and>
    (\<forall>h. proxy_new_reply env_keyring_failed h = Inr ()) \<and>
    fst (transition GPM_CONTROL_ACTION_HIBERNATE build_keyring env_keyring_failed None) \<and>
    filter transition_event
      (trace (snd (transition GPM_CONTROL_ACTION_HIBERNATE build_keyring env_keyring_failed None)))
      = [Signal_emit SLEEP GPM_CONTROL_ACTION_HIBERNATE,
         Dbus_proxy_call ''Hibernate'' False (Inr ()),
         Signal_emit RESUME GPM_CONTROL_ACTION_HIBERNATE])"
proof -
  let ?R1 = "transition GPM_CONTROL_ACTION_SUSPEND build_libsecret env_no_secret_service None"
  let ?R2 = "transition GPM_CONTROL_ACTION_HIBERNATE build_libsecret env_no_collections None"
  let ?R3 = "transition GPM_CONTROL_ACTION_SUSPEND build_libsecret env_lock_refused None"
  let ?R4 = "transition GPM_CONTROL_ACTION_HIBERNATE build_keyring env_keyring_failed None"
  have t1: "trace (snd ?R1) =
      [Logind_running True,
       Settings_get_boolean GPM_SETTINGS_LOCK_KEYRING_SUSPEND True,
       Secret_service_get (Inl ''no secret service''),
       Warning ''failed to connect to secret service'',
       Settings_get_boolean GPM_SETTINGS_NETWORKMANAGER_SLEEP True,
       Networkmanager_sleep,
       Debug ''emitting sleep'',
       Signal_emit SLEEP GPM_CONTROL_ACTION_SUSPEND,
       Logind_running True,
       Dbus_proxy_new (Inr ()),
       Dbus_proxy_call ''Suspend'' False (Inr ()),
       Debug ''emitting resume'',
       Signal_emit RESUME GPM_CONTROL_ACTION_SUSPEND,
       Settings_get_boolean GPM_SETTINGS_NETWORKMANAGER_SLEEP True,
       Networkmanager_wake]"
    by (simp add: run_defs env_no_secret_service_def env_ok_def build_libsecret_def)
  have t2: "trace (snd ?R2) =
      [Logind_running True,
       Settings_get_boolean GPM_SETTINGS_LOCK_KEYRING_SUSPEND True,
       Secret_service_get (Inr ()),
       Secret_service_get_collections 0,
       Warning ''failed to get secret collections'',
       Settings_get_boolean GPM_SETTINGS_NETWORKMANAGER_SLEEP True,
       Networkmanager_sleep,
       Debug ''emitting sleep'',
       Signal_emit SLEEP GPM_CONTROL_ACTION_HIBERNATE,
       Logind_running True,
       Dbus_proxy_new (Inr ()),
       Dbus_proxy_call ''Hibernate'' False (Inr ()),
       Debug ''emitting resume'',
       Signal_emit RESUME GPM_CONTROL_ACTION_HIBERNATE,
       Settings_get_boolean GPM_SETTINGS_NETWORKMANAGER_SLEEP True,
       Networkmanager_wake]"
    by (simp add: run_defs env_no_collections_def env_ok_def build_libsecret_def)
  have t3: "trace (snd ?R3) =
      [Logind_running True,
       Settings_get_boolean GPM_SETTINGS_LOCK_KEYRING_SUSPEND True,
       Secret_service_get (Inr ()),
       Secret_service_get_collections 2,
       Secret_service_lock (Inl ''lock refused''),
       Warning ''could not lock keyring'',
       Settings_get_boolean GPM_SETTINGS_NETWORKMANAGER_SLEEP True,
       Networkmanager_sleep,
       Debug ''emitting sleep'',
       Signal_emit SLEEP GPM_CONTROL_ACTION_SUSPEND,
       Logind_running True,
       Dbus_proxy_new (Inr ()),
       Dbus_proxy_call ''Suspend'' False (Inr ()),
       Debug ''emitting resume'',
       Signal_emit RESUME GPM_CONTROL_ACTION_SUSPEND,
       Settings_get_boolean GPM_SETTINGS_NETWORKMANAGER_SLEEP True,
       Networkmanager_wake]"
    by (simp add: run_defs env_lock_refused_def env_ok_def build_libsecret_def)
  have t4: "trace (snd ?R4) =
      [Logind_running True,
       Settings_get_boolean GPM_SETTINGS_LOCK_KEYRING_HIBERNATE True,
       Gnome_keyring_lock_all GNOME_KEYRING_RESULT_FAILED,
       Warning ''could not lock keyring'',
       Settings_get_boolean GPM_SETTINGS_NETWORKMANAGER_SLEEP True,
       Networkmanager_sleep,
       Debug ''emitting sleep'',
       Signal_emit SLEEP GPM_CONTROL_ACTION_HIBERNATE,
       Logind_running True,
       Dbus_proxy_new (Inr ()),
       Dbus_proxy_call ''Hibernate'' False (Inr ()),
       Debug ''emitting resume'',
       Signal_emit RESUME GPM_CONTROL_ACTION_HIBERNATE,
       Settings_get_boolean GPM_SETTINGS_NETWORKMANAGER_SLEEP True,
       Networkmanager_wake]"
    by (simp add: run_defs env_keyring_failed_def env_ok_def build_keyring_def)
  have f1: "list_ex credential_failure (trace (snd ?R1))" by (simp add: t1)
  have f2: "list_ex credential_failure (trace (snd ?R2))" by (simp add: t2)
  have f3: "list_ex credential_failure (trace (snd ?R3))" by (simp add: t3)
  have f4: "list_ex credential_failure (trace (snd ?R4))" by (simp add: t4)
  have w1: "\<forall>h. logind_running env_no_secret_service h"
    "\<forall>h. proxy_new_reply env_no_secret_service h = Inr ()"
    by (simp_all add: env_no_secret_service_def env_ok_def)
  have w2: "\<forall>h. logind_running env_no_collections h"
    "\<forall>h. proxy_new_reply env_no_collections h = Inr ()"
    by (simp_all add: env_no_collections_def env_ok_def)
  have w3: "\<forall>h. logind_running env_lock_refused h"
    "\<forall>h. proxy_new_reply env_lock_refused h = Inr ()"
    by (simp_all add: env_lock_refused_def env_ok_def)
  have w4: "\<forall>h. logind_running env_keyring_failed h"
    "\<forall>h. proxy_new_reply env_keyring_failed h = Inr ()"
    by (simp_all add: env_keyring_failed_def env_ok_def)
  show ?thesis
    using w1 w2 w3 w4
      lock_failure_is_advisory [OF prod.collapse [symmetric] f1 w1]
      lock_failure_is_advisory [OF prod.collapse [symmetric] f2 w2]
      lock_failure_is_advisory [OF prod.collapse [symmetric] f3 w3]
      lock_failure_is_advisory [OF prod.collapse [symmetric] f4 w4]
    by (simp add: t1 t2 t3 t4 method_of_def)
qed

text \<open>
  C7, as stated, fails on the code: with logind running, \<^verbatim>\<open>gpm_control_systemd_shutdown\<close>
  returns \<^verbatim>\<open>FALSE\<close> before any call when the proxy cannot be created, so an available login
  manager does not mean that a PowerOff call is issued.
\<close>

theorem shutdown_without_call_counterexample:
  "logind_running env_no_bus [] \<and>
   gpm_control_shutdown env_no_bus None =
     (False,
      \<lparr>trace =
         [Logind_running True,
          Debug ''Requesting systemd to shutdown'',
          Dbus_proxy_new (Inl ''no bus''),
          Warning ''Error connecting to dbus - no bus''],
       error_out = None\<rparr>) \<and>
   filter proxy_call_event (trace (snd (gpm_control_shutdown env_no_bus None))) = []"
  by (simp add: gpm_control_shutdown_def gpm_control_systemd_shutdown_def prim_defs Let_def
      env_no_bus_def env_ok_def)

text \<open>
  C7, amended. Shutdown never emits a signal and never touches the caller's error. When the
  login manager is unavailable it returns failure with the probe as its only action. When
  it is available and the proxy is created, it issues exactly one call, PowerOff with the
  interactive flag false, and returns success exactly when that call answers without error.
  When it is available and the proxy cannot be created, it returns failure and issues no
  call.
\<close>

theorem shutdown_outcome:
  assumes "gpm_control_shutdown E err = (ret, s)"
  shows "error_out s = err \<and> filter signal_event (trace s) = [] \<and>
     (if \<not> logind_running E [] then \<not> ret \<and> trace s = [Logind_running False]
      else if Dbus_proxy_new (Inr ()) \<in> set (trace s)
      then \<exists>r. filter proxy_call_event (trace s) = [Dbus_proxy_call ''PowerOff'' False r]
               \<and> (ret \<longleftrightarrow> r = Inr ())
      else \<not> ret \<and> filter proxy_call_event (trace s) = [])"
  using assms
  by (auto simp: gpm_control_shutdown_def gpm_control_systemd_shutdown_def prim_defs Let_def
      split: sum.splits)

theorem shutdown_outcome_witness:
  "gpm_control_shutdown env_ok (Some None) =
     (True,
      \<lparr>trace =
         [Logind_running True,
          Debug ''Requesting systemd to shutdown'',
          Dbus_proxy_new (Inr ()),
          Dbus_proxy_call ''PowerOff'' False (Inr ())],
       error_out = Some None\<rparr>) \<and>
   logind_running env_ok [] \<and>
   filter signal_event (trace (snd (gpm_control_shutdown env_ok (Some None)))) = [] \<and>
   (\<exists>r. filter proxy_call_event (trace (snd (gpm_control_shutdown env_ok (Some None))))
           = [Dbus_proxy_call ''PowerOff'' False r]
         \<and> (fst (gpm_control_shutdown env_ok (Some None)) \<longleftrightarrow> r = Inr ()))"
proof -
  have run: "gpm_control_shutdown env_ok (Some None) =
     (True,
      \<lparr>trace =
         [Logind_running True,
          Debug ''Requesting systemd to shutdown'',
          Dbus_proxy_new (Inr ()),
          Dbus_proxy_call ''PowerOff'' False (Inr ())],
       error_out = Some None\<rparr>)"
    by (simp add: gpm_control_shutdown_def gpm_control_systemd_shutdown_def prim_defs Let_def
        env_ok_def)
  have av: "logind_running env_ok []" by (simp add: env_ok_def)
  show ?thesis
    using run av shutdown_outcome [OF run] by simp
qed

text \<open>
  C8, as stated, fails on the code in three ways. The quiesce setting is read a second time
  after the resume signal, and the post-wake action follows that second read, not what was
  done before the sleep: a setting switched on in between gives a wake-up without a
  pre-sleep action. The \<^verbatim>\<open>goto out\<close> on a failed proxy skips the post-wake action after a
  pre-sleep action that was applied. And with the login manager unavailable at entry no
  network action is taken although the setting is true.
\<close>

theorem network_quiesce_counterexample:
  "(Networkmanager_sleep
      \<notin> set (trace (snd (transition GPM_CONTROL_ACTION_SUSPEND build_keyring env_quiesce_switched_on None))) \<and>
    Networkmanager_wake
      \<in> set (trace (snd (transition GPM_CONTROL_ACTION_SUSPEND build_keyring env_quiesce_switched_on None)))) \<and>
   (Networkmanager_sleep
      \<in> set (trace (snd (transition GPM_CONTROL_ACTION_SUSPEND build_keyring env_no_bus None))) \<and>
    Networkmanager_wake
      \<notin> set (trace (snd (transition GPM_CONTROL_ACTION_SUSPEND build_keyring env_no_bus None)))) \<and>
   (settings_value env_no_logind [] GPM_SETTINGS_NETWORKMANAGER_SLEEP \<and>
    Networkmanager_sleep
      \<notin> set (trace (snd (transition GPM_CONTROL_ACTION_SUSPEND build_keyring env_no_logind None))))"
  by (simp add: run_defs env_quiesce_switched_on_def env_no_bus_def env_no_logind_def
      env_ok_def build_keyring_def)

text \<open>
  C8, amended. In every invocation that passes the availability check at entry, the network
  events and the signals are, in this order: one read of the quiesce setting, answered by
  the world as it is before any of them; the pre-sleep action exactly when that read was
  true; the sleep signal; and, unless the invocation ended because the proxy could not be
  created, the resume signal, a second read of the setting, answered by the world as it is
  right after the resume signal, and the post-wake action exactly when that second read was
  true.
\<close>

theorem network_quiesce_follows_reads:
  assumes "transition a B E err = (ret, s)" and "logind_running E []"
  shows "filter quiesce_event (trace s) =
     (let v1 = settings_value E (takeWhile (\<lambda>e. \<not> quiesce_event e) (trace s))
                 GPM_SETTINGS_NETWORKMANAGER_SLEEP;
          v2 = settings_value E
                 (takeWhile (\<lambda>e. e \<noteq> Signal_emit RESUME a) (trace s) @ [Signal_emit RESUME a])
                 GPM_SETTINGS_NETWORKMANAGER_SLEEP
      in Settings_get_boolean GPM_SETTINGS_NETWORKMANAGER_SLEEP v1
         # (if v1 then [Networkmanager_sleep] else [])
         @ [Signal_emit SLEEP a]
         @ (if list_ex connect_failure (trace s) then []
            else [Signal_emit RESUME a, Settings_get_boolean GPM_SETTINGS_NETWORKMANAGER_SLEEP v2]
                 @ (if v2 then [Networkmanager_wake] else [])))"
proof -
  from assms(2,1) obtain ks oc where
    tr: "trace s = Logind_running True # ks @ sleep_trace a (method_of a)
       (settings_value E (Logind_running True # ks) GPM_SETTINGS_NETWORKMANAGER_SLEEP) oc
       (settings_value E
          (Logind_running True # ks
             @ pre_trace a (settings_value E (Logind_running True # ks) GPM_SETTINGS_NETWORKMANAGER_SLEEP)
             @ privileged_trace (method_of a) oc @ [Debug ''emitting resume'', Signal_emit RESUME a])
          GPM_SETTINGS_NETWORKMANAGER_SLEEP)"
    and ks: "list_all credential_event ks"
    by (rule transition_exact)
  have t1: "\<And>rest. takeWhile (\<lambda>e. \<not> quiesce_event e) (ks @ rest)
              = ks @ takeWhile (\<lambda>e. \<not> quiesce_event e) rest"
    using ks by (rule credential_takeWhile) (rule credential_not_quiesce)
  have t2: "\<And>rest. takeWhile (\<lambda>e. e \<noteq> Signal_emit RESUME a) (ks @ rest)
              = ks @ takeWhile (\<lambda>e. e \<noteq> Signal_emit RESUME a) rest"
    using ks by (rule credential_takeWhile) auto
  show ?thesis
    unfolding tr Let_def
    using credential_no_connect_failure [OF ks] credential_quiesce_filter [OF ks]
    by (cases oc) (auto simp: shape_defs t1 t2 split: sum.splits)
qed

theorem network_quiesce_follows_reads_witness:
  "logind_running env_quiesce_switched_off [] \<and>
   filter quiesce_event
     (trace (snd (transition GPM_CONTROL_ACTION_HIBERNATE build_libsecret env_quiesce_switched_off None)))
     = [Settings_get_boolean GPM_SETTINGS_NETWORKMANAGER_SLEEP True,
        Networkmanager_sleep,
        Signal_emit SLEEP GPM_CONTROL_ACTION_HIBERNATE,
        Signal_emit RESUME GPM_CONTROL_ACTION_HIBERNATE,
        Settings_get_boolean GPM_SETTINGS_NETWORKMANAGER_SLEEP False] \<and>
   logind_running env_no_bus [] \<and>
   filter quiesce_event
     (trace (snd (transition GPM_CONTROL_ACTION_SUSPEND build_keyring env_no_bus None)))
     = [Settings_get_boolean GPM_SETTINGS_NETWORKMANAGER_SLEEP True,
        Networkmanager_sleep,
        Signal_emit SLEEP GPM_CONTROL_ACTION_SUSPEND]"
proof -
  let ?R1 = "transition GPM_CONTROL_ACTION_HIBERNATE build_libsecret env_quiesce_switched_off None"
  let ?R2 = "transition GPM_CONTROL_ACTION_SUSPEND build_keyring env_no_bus None"
  have av1: "logind_running env_quiesce_switched_off []"
    by (simp add: env_quiesce_switched_off_def env_ok_def)
  have av2: "logind_running env_no_bus []"
    by (simp add: env_no_bus_def env_ok_def)
  have t1: "trace (snd ?R1) =
      [Logind_running True,
       Settings_get_boolean GPM_SETTINGS_LOCK_KEYRING_SUSPEND True,
       Secret_service_get (Inr ()),
       Secret_service_get_collections 2,
       Secret_service_lock (Inr 2),
       Settings_get_boolean GPM_SETTINGS_NETWORKMANAGER_SLEEP True,
       Networkmanager_sleep,
       Debug ''emitting sleep'',
       Signal_emit SLEEP GPM_CONTROL_ACTION_HIBERNATE,
       Logind_running True,
       Dbus_proxy_new (Inr ()),
       Dbus_proxy_call ''Hibernate'' False (Inr ()),
       Debug ''emitting resume'',
       Signal_emit RESUME GPM_CONTROL_ACTION_HIBERNATE,
       Settings_get_boolean GPM_SETTINGS_NETWORKMANAGER_SLEEP False]"
    by (simp add: run_defs env_quiesce_switched_off_def env_ok_def build_libsecret_def)
  have t2: "trace (snd ?R2) =
      [Logind_running True,
       Settings_get_boolean GPM_SETTINGS_LOCK_KEYRING_SUSPEND True,
       Gnome_keyring_lock_all GNOME_KEYRING_RESULT_OK,
       Settings_get_boolean GPM_SETTINGS_NETWORKMANAGER_SLEEP True,
       Networkmanager_sleep,
       Debug ''emitting sleep'',
       Signal_emit SLEEP GPM_CONTROL_ACTION_SUSPEND,
       Logind_running True,
       Dbus_proxy_new (Inl ''no bus''),
       Warning ''Error connecting to dbus - no bus'']"
    by (simp add: run_defs env_no_bus_def env_ok_def build_keyring_def)
  show ?thesis
    using av1 av2
      network_quiesce_follows_reads [OF prod.collapse [symmetric] av1,
        of GPM_CONTROL_ACTION_HIBERNATE build_libsecret None]
      network_quiesce_follows_reads [OF prod.collapse [symmetric] av2,
        of GPM_CONTROL_ACTION_SUSPEND build_keyring None]
    by (simp add: t1 t2)
qed

text \<open>
  C10. Suspend and hibernate can return success with an error written into the caller's
  error. With libsecret compiled in, in every world where logind is running at every probe,
  the proxy to it can always be created, the lock-keyring setting that the libsecret block
  reads is true, and the secret service either fails with \<open>e\<close> at connect, or connects,
  has collections and fails with \<open>e\<close> at lock: the operation, called with an empty error
  slot, asks the secret service, gets that error, returns success, and the caller's error
  holds \<open>e\<close>. The witness runs suspend and hibernate at the connect step and at the lock
  step.
\<close>

theorem success_with_error_set:
  assumes "with_libsecret B"
    and "\<forall>h. logind_running E h"
    and "\<forall>h. proxy_new_reply E h = Inr ()"
    and "\<forall>h. settings_value E h GPM_SETTINGS_LOCK_KEYRING_SUSPEND"
    and "(\<forall>h. secret_service_reply E h = Inl e)
       \<or> ((\<forall>h. secret_service_reply E h = Inr ()) \<and> (\<forall>h. 0 < collections_reply E h)
           \<and> (\<forall>h. lock_reply E h = Inl e))"
  shows "fst (transition a B E (Some None))
       \<and> error_out (snd (transition a B E (Some None))) = Some (Some e)
       \<and> (Secret_service_get (Inl e) \<in> set (trace (snd (transition a B E (Some None))))
          \<or> Secret_service_lock (Inl e) \<in> set (trace (snd (transition a B E (Some None)))))"
proof -
  let ?L = "lock_keyrings B E GPM_SETTINGS_LOCK_KEYRING_SUSPEND (keyring_key a)
              \<lparr>trace = [Logind_running True], error_out = Some None\<rparr>"
  from assms(2,3) prod.collapse [symmetric] obtain ks v1 r v2 where
    tr: "trace (snd (transition a B E (Some None)))
           = Logind_running True # ks @ sleep_trace a (method_of a) v1 (Call_replied r) v2"
    and ret: "fst (transition a B E (Some None))"
    and L: "trace ?L = Logind_running True # ks"
    and err: "error_out (snd (transition a B E (Some None))) = error_out ?L"
    by (rule transition_reached)
  from assms(5) have "error_out ?L = Some (Some e)
       \<and> (Secret_service_get (Inl e) \<in> set (trace ?L) \<or> Secret_service_lock (Inl e) \<in> set (trace ?L))"
  proof
    assume "\<forall>h. secret_service_reply E h = Inl e"
    with lock_keyrings_connect_error [OF assms(1,4)] show ?thesis by blast
  next
    assume "(\<forall>h. secret_service_reply E h = Inr ()) \<and> (\<forall>h. 0 < collections_reply E h)
           \<and> (\<forall>h. lock_reply E h = Inl e)"
    with lock_keyrings_lock_error [OF assms(1,4)] show ?thesis by blast
  qed
  with tr ret L err show ?thesis by auto
qed

theorem success_with_error_set_witness:
  "with_libsecret build_libsecret \<and>
   ((\<forall>h. logind_running env_no_secret_service h) \<and>
    (\<forall>h. proxy_new_reply env_no_secret_service h = Inr ()) \<and>
    (\<forall>h. settings_value env_no_secret_service h GPM_SETTINGS_LOCK_KEYRING_SUSPEND) \<and>
    (\<forall>h. secret_service_reply env_no_secret_service h = Inl ''no secret service'')) \<and>
   ((\<forall>h. logind_running env_lock_refused h) \<and>
    (\<forall>h. proxy_new_reply env_lock_refused h = Inr ()) \<and>
    (\<forall>h. settings_value env_lock_refused h GPM_SETTINGS_LOCK_KEYRING_SUSPEND) \<and>
    (\<forall>h. secret_service_reply env_lock_refused h = Inr ()) \<and>
    (\<forall>h. 0 < collections_reply env_lock_refused h) \<and>
    (\<forall>h. lock_reply env_lock_refused h = Inl ''lock refused'')) \<and>
   gpm_control_suspend build_libsecret env_no_secret_service (Some None) =
     (True,
      \<lparr>trace =
         [Logind_running True,
          Settings_get_boolean GPM_SETTINGS_LOCK_KEYRING_SUSPEND True,
          Secret_service_get (Inl ''no secret service''),
          Warning ''failed to connect to secret service'',
          Settings_get_boolean GPM_SETTINGS_NETWORKMANAGER_SLEEP True,
          Networkmanager_sleep,
          Debug ''emitting sleep'',
          Signal_emit SLEEP GPM_CONTROL_ACTION_SUSPEND,
          Logind_running True,
          Dbus_proxy_new (Inr ()),
          Dbus_proxy_call ''Suspend'' False (Inr ()),
          Debug ''emitting resume'',
          Signal_emit RESUME GPM_CONTROL_ACTION_SUSPEND,
          Settings_get_boolean GPM_SETTINGS_NETWORKMANAGER_SLEEP True,
          Networkmanager_wake],
       error_out = Some (Some ''no secret service'')\<rparr>) \<and>
   gpm_control_suspend build_libsecret env_lock_refused (Some None) =
     (True,
      \<lparr>trace =
         [Logind_running True,
          Settings_get_boolean GPM_SETTINGS_LOCK_KEYRING_SUSPEND True,
          Secret_service_get (Inr ()),
          Secret_service_get_collections 2,
          Secret_service_lock (Inl ''lock refused''),
          Warning ''could not lock keyring'',
          Settings_get_boolean GPM_SETTINGS_NETWORKMANAGER_SLEEP True,
          Networkmanager_sleep,
          Debug ''emitting sleep'',
          Signal_emit SLEEP GPM_CONTROL_ACTION_SUSPEND,
          Logind_running True,
          Dbus_proxy_new (Inr ()),
          Dbus_proxy_call ''Suspend'' False (Inr ()),
          Debug ''emitting resume'',
          Signal_emit RESUME GPM_CONTROL_ACTION_SUSPEND,
          Settings_get_boolean GPM_SETTINGS_NETWORKMANAGER_SLEEP True,
          Networkmanager_wake],
       error_out = Some (Some ''lock refused'')\<rparr>) \<and>
   gpm_control_hibernate build_libsecret env_no_secret_service (Some None) =
     (True,
      \<lparr>trace =
         [Logind_running True,
          Settings_get_boolean GPM_SETTINGS_LOCK_KEYRING_SUSPEND True,
          Secret_service_get (Inl ''no secret service''),
          Warning ''failed to connect to secret service'',
          Settings_get_boolean GPM_SETTINGS_NETWORKMANAGER_SLEEP True,
          Networkmanager_sleep,
          Debug ''emitting sleep'',
          Signal_emit SLEEP GPM_CONTROL_ACTION_HIBERNATE,
          Logind_running True,
          Dbus_proxy_new (Inr ()),
          Dbus_proxy_call ''Hibernate'' False (Inr ()),
          Debug ''emitting resume'',
          Signal_emit RESUME GPM_CONTROL_ACTION_HIBERNATE,
          Settings_get_boolean GPM_SETTINGS_NETWORKMANAGER_SLEEP True,
          Networkmanager_wake],
       error_out = Some (Some ''no secret service'')\<rparr>) \<and>
   gpm_control_hibernate build_libsecret env_lock_refused (Some None) =
     (True,
      \<lparr>trace =
         [Logind_running True,
          Settings_get_boolean GPM_SETTINGS_LOCK_KEYRING_SUSPEND True,
          Secret_service_get (Inr ()),
          Secret_service_get_collections 2,
          Secret_service_lock (Inl ''lock refused''),
          Warning ''could not lock keyring'',
          Settings_get_boolean GPM_SETTINGS_NETWORKMANAGER_SLEEP True,
          Networkmanager_sleep,
          Debug ''emitting sleep'',
          Signal_emit SLEEP GPM_CONTROL_ACTION_HIBERNATE,
          Logind_running True,
          Dbus_proxy_new (Inr ()),
          Dbus_proxy_call ''Hibernate'' False (Inr ()),
          Debug ''emitting resume'',
          Signal_emit RESUME GPM_CONTROL_ACTION_HIBERNATE,
          Settings_get_boolean GPM_SETTINGS_NETWORKMANAGER_SLEEP True,
          Networkmanager_wake],
       error_out = Some (Some ''lock refused'')\<rparr>) \<and>
   (fst (transition GPM_CONTROL_ACTION_SUSPEND build_libsecret env_no_secret_service (Some None)) \<and>
    error_out (snd (transition GPM_CONTROL_ACTION_SUSPEND build_libsecret env_no_secret_service (Some None)))
      = Some (Some ''no secret service'')) \<and>
   (fst (transition GPM_CONTROL_ACTION_SUSPEND build_libsecret env_lock_refused (Some None)) \<and>
    error_out (snd (transition GPM_CONTROL_ACTION_SUSPEND build_libsecret env_lock_refused (Some None)))
      = Some (Some ''lock refused'')) \<and>
   (fst (transition GPM_CONTROL_ACTION_HIBERNATE build_libsecret env_no_secret_service (Some None)) \<and>
    error_out (snd (transition GPM_CONTROL_ACTION_HIBERNATE build_libsecret env_no_secret_service (Some None)))
      = Some (Some ''no secret service'')) \<and>
   (fst (transition GPM_CONTROL_ACTION_HIBERNATE build_libsecret env_lock_refused (Some None)) \<and>
    error_out (snd (transition GPM_CONTROL_ACTION_HIBERNATE build_libsecret env_lock_refused (Some None)))
      = Some (Some ''lock refused''))"
proof -
  have b: "with_libsecret build_libsecret" by (simp add: build_libsecret_def)
  have c: "\<forall>h. logind_running env_no_secret_service h"
    "\<forall>h. proxy_new_reply env_no_secret_service h = Inr ()"
    "\<forall>h. settings_value env_no_secret_service h GPM_SETTINGS_LOCK_KEYRING_SUSPEND"
    and c5: "\<forall>h. secret_service_reply env_no_secret_service h = Inl ''no secret service''"
    by (simp_all add: env_no_secret_service_def env_ok_def)
  have l: "\<forall>h. logind_running env_lock_refused h"
    "\<forall>h. proxy_new_reply env_lock_refused h = Inr ()"
    "\<forall>h. settings_value env_lock_refused h GPM_SETTINGS_LOCK_KEYRING_SUSPEND"
    and l5: "\<forall>h. secret_service_reply env_lock_refused h = Inr ()"
      "\<forall>h. 0 < collections_reply env_lock_refused h"
      "\<forall>h. lock_reply env_lock_refused h = Inl ''lock refused''"
    by (simp_all add: env_lock_refused_def env_ok_def)
  have cd: "(\<forall>h. secret_service_reply env_no_secret_service h = Inl ''no secret service'')
       \<or> ((\<forall>h. secret_service_reply env_no_secret_service h = Inr ())
           \<and> (\<forall>h. 0 < collections_reply env_no_secret_service h)
           \<and> (\<forall>h. lock_reply env_no_secret_service h = Inl ''no secret service''))"
    using c5 by (rule disjI1)
  have ld: "(\<forall>h. secret_service_reply env_lock_refused h = Inl ''lock refused'')
       \<or> ((\<forall>h. secret_service_reply env_lock_refused h = Inr ())
           \<and> (\<forall>h. 0 < collections_reply env_lock_refused h)
           \<and> (\<forall>h. lock_reply env_lock_refused h = Inl ''lock refused''))"
    using l5 by blast
  have runs:
    "gpm_control_suspend build_libsecret env_no_secret_service (Some None) =
     (True,
      \<lparr>trace =
         [Logind_running True,
          Settings_get_boolean GPM_SETTINGS_LOCK_KEYRING_SUSPEND True,
          Secret_service_get (Inl ''no secret service''),
          Warning ''failed to connect to secret service'',
          Settings_get_boolean GPM_SETTINGS_NETWORKMANAGER_SLEEP True,
          Networkmanager_sleep,
          Debug ''emitting sleep'',
          Signal_emit SLEEP GPM_CONTROL_ACTION_SUSPEND,
          Logind_running True,
          Dbus_proxy_new (Inr ()),
          Dbus_proxy_call ''Suspend'' False (Inr ()),
          Debug ''emitting resume'',
          Signal_emit RESUME GPM_CONTROL_ACTION_SUSPEND,
          Settings_get_boolean GPM_SETTINGS_NETWORKMANAGER_SLEEP True,
          Networkmanager_wake],
       error_out = Some (Some ''no secret service'')\<rparr>)"
    "gpm_control_suspend build_libsecret env_lock_refused (Some None) =
     (True,
      \<lparr>trace =
         [Logind_running True,
          Settings_get_boolean GPM_SETTINGS_LOCK_KEYRING_SUSPEND True,
          Secret_service_get (Inr ()),
          Secret_service_get_collections 2,
          Secret_service_lock (Inl ''lock refused''),
          Warning ''could not lock keyring'',
          Settings_get_boolean GPM_SETTINGS_NETWORKMANAGER_SLEEP True,
          Networkmanager_sleep,
          Debug ''emitting sleep'',
          Signal_emit SLEEP GPM_CONTROL_ACTION_SUSPEND,
          Logind_running True,
          Dbus_proxy_new (Inr ()),
          Dbus_proxy_call ''Suspend'' False (Inr ()),
          Debug ''emitting resume'',
          Signal_emit RESUME GPM_CONTROL_ACTION_SUSPEND,
          Settings_get_boolean GPM_SETTINGS_NETWORKMANAGER_SLEEP True,
          Networkmanager_wake],
       error_out = Some (Some ''lock refused'')\<rparr>)"
    "gpm_control_hibernate build_libsecret env_no_secret_service (Some None) =
     (True,
      \<lparr>trace =
         [Logind_running True,
          Settings_get_boolean GPM_SETTINGS_LOCK_KEYRING_SUSPEND True,
          Secret_service_get (Inl ''no secret service''),
          Warning ''failed to connect to secret service'',
          Settings_get_boolean GPM_SETTINGS_NETWORKMANAGER_SLEEP True,
          Networkmanager_sleep,
          Debug ''emitting sleep'',
          Signal_emit SLEEP GPM_CONTROL_ACTION_HIBERNATE,
          Logind_running True,
          Dbus_proxy_new (Inr ()),
          Dbus_proxy_call ''Hibernate'' False (Inr ()),
          Debug ''emitting resume'',
          Signal_emit RESUME GPM_CONTROL_ACTION_HIBERNATE,
          Settings_get_boolean GPM_SETTINGS_NETWORKMANAGER_SLEEP True,
          Networkmanager_wake],
       error_out = Some (Some ''no secret service'')\<rparr>)"
    "gpm_control_hibernate build_libsecret env_lock_refused (Some None) =
     (True,
      \<lparr>trace =
         [Logind_running True,
          Settings_get_boolean GPM_SETTINGS_LOCK_KEYRING_SUSPEND True,
          Secret_service_get (Inr ()),
          Secret_service_get_collections 2,
          Secret_service_lock (Inl ''lock refused''),
          Warning ''could not lock keyring'',
          Settings_get_boolean GPM_SETTINGS_NETWORKMANAGER_SLEEP True,
          Networkmanager_sleep,
          Debug ''emitting sleep'',
          Signal_emit SLEEP GPM_CONTROL_ACTION_HIBERNATE,
          Logind_running True,
          Dbus_proxy_new (Inr ()),
          Dbus_proxy_call ''Hibernate'' False (Inr ()),
          Debug ''emitting resume'',
          Signal_emit RESUME GPM_CONTROL_ACTION_HIBERNATE,
          Settings_get_boolean GPM_SETTINGS_NETWORKMANAGER_SLEEP True,
          Networkmanager_wake],
       error_out = Some (Some ''lock refused'')\<rparr>)"
    by (simp_all add: run_defs env_no_secret_service_def env_lock_refused_def env_ok_def
        build_libsecret_def)
  show ?thesis
    using b c c5 l l5 runs
      success_with_error_set [OF b c cd, of GPM_CONTROL_ACTION_SUSPEND]
      success_with_error_set [OF b l ld, of GPM_CONTROL_ACTION_SUSPEND]
      success_with_error_set [OF b c cd, of GPM_CONTROL_ACTION_HIBERNATE]
      success_with_error_set [OF b l ld, of GPM_CONTROL_ACTION_HIBERNATE]
    by simp
qed

text \<open>
  C3. Both functions are the same sequence of phases (lemmas \<open>suspend_phases\<close> and
  \<open>hibernate_phases\<close>), but the \<^verbatim>\<open>WITH_LIBSECRET\<close> block of \<^verbatim>\<open>gpm_control_hibernate\<close> reads
  the key for suspend, where its \<^verbatim>\<open>WITH_KEYRING\<close> block reads the key for hibernate. With
  the lock asked for on hibernate only, the libsecret build reads the suspend key, finds it
  false and hibernates without locking; the keyring build reads the hibernate key and locks.
\<close>

theorem hibernate_reads_suspend_key:
  "gpm_control_hibernate build_libsecret env_lock_on_hibernate_only None =
     (True,
      \<lparr>trace =
         [Logind_running True,
          Settings_get_boolean GPM_SETTINGS_LOCK_KEYRING_SUSPEND False,
          Settings_get_boolean GPM_SETTINGS_NETWORKMANAGER_SLEEP False,
          Debug ''emitting sleep'',
          Signal_emit SLEEP GPM_CONTROL_ACTION_HIBERNATE,
          Logind_running True,
          Dbus_proxy_new (Inr ()),
          Dbus_proxy_call ''Hibernate'' False (Inr ()),
          Debug ''emitting resume'',
          Signal_emit RESUME GPM_CONTROL_ACTION_HIBERNATE,
          Settings_get_boolean GPM_SETTINGS_NETWORKMANAGER_SLEEP False],
       error_out = None\<rparr>) \<and>
   gpm_control_hibernate build_keyring env_lock_on_hibernate_only None =
     (True,
      \<lparr>trace =
         [Logind_running True,
          Settings_get_boolean GPM_SETTINGS_LOCK_KEYRING_HIBERNATE True,
          Gnome_keyring_lock_all GNOME_KEYRING_RESULT_OK,
          Settings_get_boolean GPM_SETTINGS_NETWORKMANAGER_SLEEP False,
          Debug ''emitting sleep'',
          Signal_emit SLEEP GPM_CONTROL_ACTION_HIBERNATE,
          Logind_running True,
          Dbus_proxy_new (Inr ()),
          Dbus_proxy_call ''Hibernate'' False (Inr ()),
          Debug ''emitting resume'',
          Signal_emit RESUME GPM_CONTROL_ACTION_HIBERNATE,
          Settings_get_boolean GPM_SETTINGS_NETWORKMANAGER_SLEEP False],
       error_out = None\<rparr>)"
  by (simp add: run_defs env_lock_on_hibernate_only_def env_ok_def build_libsecret_def
      build_keyring_def)

text \<open>
  C9. In every state the process can reach by asking for controllers, taking references and
  releasing them: at most one controller is live, and it is the one the static variable
  points to; asking for a controller while one is live returns that same one with one more
  reference and allocates nothing; a step destroys a live controller only if it releases
  its last reference; releasing the last reference destroys the controller and clears the
  static variable, and the next request then creates a new controller, different from the
  old one, with one reference.
\<close>

theorem controller_singleton:
  assumes "client_run cs process_start = Some p"
  shows "(\<forall>a b. a \<in> dom (refcount p) \<and> b \<in> dom (refcount p) \<longrightarrow> a = b)
    \<and> (\<forall>a. gpm_control_object p = Some a \<longleftrightarrow> a \<in> dom (refcount p))
    \<and> (\<forall>a n. refcount p a = Some n \<longrightarrow>
          gpm_control_new p = Some (a, p\<lparr>refcount := (refcount p)(a \<mapsto> Suc n)\<rparr>))
    \<and> (\<forall>c p' a. client_step c p = Some p' \<and> a \<in> dom (refcount p) \<and> a \<notin> dom (refcount p')
          \<longrightarrow> c = Unref a \<and> refcount p a = Some 1)
    \<and> (\<forall>a. refcount p a = Some 1 \<longrightarrow>
          (\<exists>p' a' p''. g_object_unref a p = Some p'
             \<and> refcount p' = Map.empty \<and> gpm_control_object p' = None
             \<and> gpm_control_new p' = Some (a', p'')
             \<and> a' \<noteq> a \<and> gpm_control_object p'' = Some a'
             \<and> dom (refcount p'') = {a'} \<and> refcount p'' a' = Some 1))"
proof -
  have inv: "singleton_inv p"
    using singleton_inv_start assms by (rule singleton_inv_run)
  have one: "\<forall>a b. a \<in> dom (refcount p) \<and> b \<in> dom (refcount p) \<longrightarrow> a = b"
    using inv by (auto simp: singleton_inv_def)
  have global: "\<forall>a. gpm_control_object p = Some a \<longleftrightarrow> a \<in> dom (refcount p)"
    using inv by (auto simp: singleton_inv_def)
  have again: "\<forall>a n. refcount p a = Some n \<longrightarrow>
          gpm_control_new p = Some (a, p\<lparr>refcount := (refcount p)(a \<mapsto> Suc n)\<rparr>)"
    using singleton_inv_live(1) [OF inv] by (auto simp: gobject_defs)
  have only: "\<forall>c p' a. client_step c p = Some p' \<and> a \<in> dom (refcount p) \<and> a \<notin> dom (refcount p')
          \<longrightarrow> c = Unref a \<and> refcount p a = Some 1"
  proof (intro allI impI)
    fix c p' a
    assume h: "client_step c p = Some p' \<and> a \<in> dom (refcount p) \<and> a \<notin> dom (refcount p')"
    then obtain n where n: "refcount p a = Some n" by auto
    note live = singleton_inv_live [OF inv n]
    show "c = Unref a \<and> refcount p a = Some 1"
    proof (cases c)
      case New
      with h n live(1) show ?thesis by (auto simp: gobject_defs)
    next
      case (Ref b)
      with h n show ?thesis by (auto simp: gobject_defs split: option.splits)
    next
      case (Unref b)
      with h n live(4) show ?thesis
        by (cases "b = a") (auto simp: gobject_defs split: option.splits if_splits)
    qed
  qed
  have last: "\<forall>a. refcount p a = Some 1 \<longrightarrow>
          (\<exists>p' a' p''. g_object_unref a p = Some p'
             \<and> refcount p' = Map.empty \<and> gpm_control_object p' = None
             \<and> gpm_control_new p' = Some (a', p'')
             \<and> a' \<noteq> a \<and> gpm_control_object p'' = Some a'
             \<and> dom (refcount p'') = {a'} \<and> refcount p'' a' = Some 1)"
  proof (intro allI impI)
    fix a
    assume n: "refcount p a = Some 1"
    note live = singleton_inv_live [OF inv n]
    from live(5) have empty: "(refcount p)(a := None) = Map.empty"
      by (auto simp: fun_eq_iff)
    show "\<exists>p' a' p''. g_object_unref a p = Some p'
             \<and> refcount p' = Map.empty \<and> gpm_control_object p' = None
             \<and> gpm_control_new p' = Some (a', p'')
             \<and> a' \<noteq> a \<and> gpm_control_object p'' = Some a'
             \<and> dom (refcount p'') = {a'} \<and> refcount p'' a' = Some 1"
      using n live(2,3) empty by (simp add: gobject_defs)
  qed
  from one global again only last show ?thesis by blast
qed

theorem controller_singleton_witness:
  "client_run [New, New] process_start =
     Some \<lparr>gpm_control_object = Some 0, refcount = [0 \<mapsto> 2], weak_pointer = {0},
           next_object = 1\<rparr> \<and>
   gpm_control_new
     \<lparr>gpm_control_object = Some 0, refcount = [0 \<mapsto> 2], weak_pointer = {0}, next_object = 1\<rparr> =
     Some (0, \<lparr>gpm_control_object = Some 0, refcount = [0 \<mapsto> 3], weak_pointer = {0},
                next_object = 1\<rparr>) \<and>
   client_run [New, New, Unref 0] process_start =
     Some \<lparr>gpm_control_object = Some 0, refcount = [0 \<mapsto> 1], weak_pointer = {0},
           next_object = 1\<rparr> \<and>
   (\<exists>p' a' p''.
      g_object_unref 0
        \<lparr>gpm_control_object = Some 0, refcount = [0 \<mapsto> 1], weak_pointer = {0},
          next_object = 1\<rparr> = Some p'
      \<and> refcount p' = Map.empty \<and> gpm_control_object p' = None
      \<and> gpm_control_new p' = Some (a', p'')
      \<and> a' \<noteq> 0 \<and> gpm_control_object p'' = Some a'
      \<and> dom (refcount p'') = {a'} \<and> refcount p'' a' = Some 1)"
proof -
  let ?p2 = "\<lparr>gpm_control_object = Some 0, refcount = [0 \<mapsto> 2], weak_pointer = {0},
              next_object = 1\<rparr>"
  let ?p1 = "\<lparr>gpm_control_object = Some 0, refcount = [0 \<mapsto> 1], weak_pointer = {0},
              next_object = 1\<rparr>"
  have run2: "client_run [New, New] process_start = Some ?p2"
    by (simp add: gobject_defs process_start_def numeral_2_eq_2)
  have run1: "client_run [New, New, Unref 0] process_start = Some ?p1"
    by (simp add: gobject_defs process_start_def)
  have r2: "refcount ?p2 0 = Some 2" by simp
  have r1: "refcount ?p1 0 = Some 1" by simp
  note again = controller_singleton [OF run2, THEN conjunct2, THEN conjunct2, THEN conjunct1,
      rule_format, OF r2]
  note last = controller_singleton [OF run1, THEN conjunct2, THEN conjunct2, THEN conjunct2,
      THEN conjunct2, rule_format, OF r1]
  show ?thesis
    using run2 run1 again last by (simp add: numeral_2_eq_2 numeral_3_eq_3)
qed

end
